theory Spec2Isabelle
  imports Main "HOL-Library.Word"
begin

unbundle bit_operations_syntax

section \<open>The expression nodes of \<open>clang/AST/Expr.h\<close>\<close>

text \<open>
  The development embeds the declarations of \<open>include/clang/AST/Expr.h\<close>: the
  expression classes with the state each constructor stores, the kind tag every
  constructor hands to \<open>Stmt\<close>, the opcode enumerations with their range predicates,
  the \<open>classof\<close> tests and the inline accessors.  A C++ enumeration is a datatype
  together with the integer value of each enumerator, so that a comparison such as
  \<open>Opc >= Assign && Opc <= OrAssign\<close> is the comparison of those integers.
\<close>

subsection \<open>Collaborators declared in other headers\<close>

text \<open>
  Modelled from the spec: \<open>SourceLocation\<close> and \<open>SourceRange\<close> of the
  source-manager headers, which are not among the sources.  The spec describes "an
  opaque position and a range (start, end)", "a single point promoted to a degenerate
  range".  A position is a number, \<open>0\<close> standing for the default-constructed one.
\<close>

type_synonym SourceLocation = nat

datatype SourceRange = SourceRange (Begin: SourceLocation) (End: SourceLocation)

definition SourceRange1 :: "SourceLocation \<Rightarrow> SourceRange" where
  "SourceRange1 loc = SourceRange loc loc"

definition SourceRange0 :: SourceRange where
  "SourceRange0 = SourceRange 0 0"

text \<open>
  Modelled from the spec: the qualified types of \<open>clang/AST/Type.h\<close>, which is not
  among the sources.  The spec's type handle answers "is this an integer type", "is this
  void", gives an integer type its bit-width and signedness, and lets the
  modifiable-lvalue check see array types, incomplete types, the const qualifier and the
  member list of a structure or union.
\<close>

datatype Type =
    VoidTy
  | IntegerTy nat bool
  | FloatingTy nat
  | PointerTy QualType
  | ArrayTy QualType
  | FunctionTy QualType
  | VectorTy QualType nat
  | RecordTy bool "QualType list"
and QualType = QualType (getTypePtr: Type) (isConstQualified: bool)

text \<open>
  Modelled from the spec: the declarations of \<open>clang/AST/Decl.h\<close>, which is not
  among the sources.  A referenced declaration offers "a single boolean capability"
  (whether it is a variable-like entity); a field declaration offers its type.
\<close>

datatype Decl = VarDecl string | FunctionDecl string | EnumConstantDecl string

datatype FieldDecl = FieldDecl (FieldDecl_getName: string) (FieldDecl_getType: QualType)

text \<open>
  \<open>llvm::APInt\<close> and \<open>llvm::APSInt\<close> of the LLVM support library (\<open>llvm/ADT/APSInt.h\<close>),
  which the header includes.  An \<open>APInt\<close> is a bit pattern of a given width: the pair of the
  width and the pattern read as an unsigned number, which is below \<open>2 ^ width\<close>.  An
  \<open>APSInt\<close> is an \<open>APInt\<close> with the flag \<open>IsUnsigned\<close>.
\<close>

typedef APInt = "{(numBits :: nat, val :: nat). val < 2 ^ numBits}"
  by (rule exI [of _ "(0, 0)"]) simp

setup_lifting type_definition_APInt

lift_definition getBitWidth :: "APInt \<Rightarrow> nat" is fst .

lift_definition getZExtValue :: "APInt \<Rightarrow> nat" is snd .

lift_definition APInt_make :: "nat \<Rightarrow> nat \<Rightarrow> APInt" is
  "\<lambda>numBits val. (numBits, val mod 2 ^ numBits)"
  by simp

definition isNegative :: "APInt \<Rightarrow> bool" where
  "isNegative a \<longleftrightarrow> bit (getZExtValue a) (getBitWidth a - 1)"

definition getSExtValue :: "APInt \<Rightarrow> int" where
  "getSExtValue a =
     (if isNegative a then int (getZExtValue a) - 2 ^ getBitWidth a else int (getZExtValue a))"

definition APInt_trunc :: "nat \<Rightarrow> APInt \<Rightarrow> APInt" where
  "APInt_trunc width a = APInt_make width (getZExtValue a mod 2 ^ width)"

definition APInt_zext :: "nat \<Rightarrow> APInt \<Rightarrow> APInt" where
  "APInt_zext width a = APInt_make width (getZExtValue a)"

definition APInt_sext :: "nat \<Rightarrow> APInt \<Rightarrow> APInt" where
  "APInt_sext width a =
     APInt_make width
       (if isNegative a then getZExtValue a + (2 ^ width - 2 ^ getBitWidth a)
        else getZExtValue a)"

definition zextOrTrunc :: "nat \<Rightarrow> APInt \<Rightarrow> APInt" where
  "zextOrTrunc width a =
     (if getBitWidth a < width then APInt_zext width a
      else if getBitWidth a > width then APInt_trunc width a
      else a)"

definition sextOrTrunc :: "nat \<Rightarrow> APInt \<Rightarrow> APInt" where
  "sextOrTrunc width a =
     (if getBitWidth a < width then APInt_sext width a
      else if getBitWidth a > width then APInt_trunc width a
      else a)"

datatype APSInt = APSInt (getAPInt: APInt) (isUnsigned: bool)

text \<open>The number an \<open>APSInt\<close> stands for: its pattern read by its own signedness.\<close>

definition getExtValue :: "APSInt \<Rightarrow> int" where
  "getExtValue x =
     (if isUnsigned x then int (getZExtValue (getAPInt x)) else getSExtValue (getAPInt x))"

text \<open>The \<open>APSInt\<close> of a given width and signedness that stands for an integer, wrapped.\<close>

definition APSInt_make :: "nat \<Rightarrow> bool \<Rightarrow> int \<Rightarrow> APSInt" where
  "APSInt_make numBits isUnsign v = APSInt (APInt_make numBits (nat (v mod 2 ^ numBits))) isUnsign"

subsection \<open>Opcodes\<close>

text \<open>
  \<open>UnaryOperator::Opcode\<close> in the order of the enumeration, and the integer value
  of each enumerator.  The enumerator \<open>Not\<close> is written \<open>Not_op\<close>.
\<close>

datatype UnaryOpcode =
    PostInc | PostDec
  | PreInc | PreDec
  | AddrOf | Deref
  | Plus | Minus
  | Not_op | LNot
  | SizeOf | AlignOf
  | Real | Imag
  | Extension

fun UnaryOpcode_val :: "UnaryOpcode \<Rightarrow> nat" where
  "UnaryOpcode_val PostInc = 0"
| "UnaryOpcode_val PostDec = 1"
| "UnaryOpcode_val PreInc = 2"
| "UnaryOpcode_val PreDec = 3"
| "UnaryOpcode_val AddrOf = 4"
| "UnaryOpcode_val Deref = 5"
| "UnaryOpcode_val Plus = 6"
| "UnaryOpcode_val Minus = 7"
| "UnaryOpcode_val Not_op = 8"
| "UnaryOpcode_val LNot = 9"
| "UnaryOpcode_val SizeOf = 10"
| "UnaryOpcode_val AlignOf = 11"
| "UnaryOpcode_val Real = 12"
| "UnaryOpcode_val Imag = 13"
| "UnaryOpcode_val Extension = 14"

definition isIncrementDecrementOp :: "UnaryOpcode \<Rightarrow> bool" where
  "isIncrementDecrementOp Opc \<longleftrightarrow>
     UnaryOpcode_val Opc \<ge> UnaryOpcode_val PostInc \<and> UnaryOpcode_val Opc \<le> UnaryOpcode_val PreDec"

definition isSizeOfAlignOfOp :: "UnaryOpcode \<Rightarrow> bool" where
  "isSizeOfAlignOfOp Opc \<longleftrightarrow> Opc = SizeOf \<or> Opc = AlignOf"

definition isArithmeticOp :: "UnaryOpcode \<Rightarrow> bool" where
  "isArithmeticOp Op \<longleftrightarrow>
     UnaryOpcode_val Op \<ge> UnaryOpcode_val Plus \<and> UnaryOpcode_val Op \<le> UnaryOpcode_val LNot"

text \<open>\<open>BinaryOperator::Opcode\<close>, "listed in order of precedence".\<close>

datatype BinaryOpcode =
    Mul | Div | Rem
  | Add | Sub
  | Shl | Shr
  | LT | GT | LE | GE
  | EQ | NE
  | And
  | Xor
  | Or
  | LAnd
  | LOr
  | Assign | MulAssign
  | DivAssign | RemAssign
  | AddAssign | SubAssign
  | ShlAssign | ShrAssign
  | AndAssign | XorAssign
  | OrAssign
  | Comma

fun BinaryOpcode_val :: "BinaryOpcode \<Rightarrow> nat" where
  "BinaryOpcode_val Mul = 0"
| "BinaryOpcode_val Div = 1"
| "BinaryOpcode_val Rem = 2"
| "BinaryOpcode_val Add = 3"
| "BinaryOpcode_val Sub = 4"
| "BinaryOpcode_val Shl = 5"
| "BinaryOpcode_val Shr = 6"
| "BinaryOpcode_val LT = 7"
| "BinaryOpcode_val GT = 8"
| "BinaryOpcode_val LE = 9"
| "BinaryOpcode_val GE = 10"
| "BinaryOpcode_val EQ = 11"
| "BinaryOpcode_val NE = 12"
| "BinaryOpcode_val And = 13"
| "BinaryOpcode_val Xor = 14"
| "BinaryOpcode_val Or = 15"
| "BinaryOpcode_val LAnd = 16"
| "BinaryOpcode_val LOr = 17"
| "BinaryOpcode_val Assign = 18"
| "BinaryOpcode_val MulAssign = 19"
| "BinaryOpcode_val DivAssign = 20"
| "BinaryOpcode_val RemAssign = 21"
| "BinaryOpcode_val AddAssign = 22"
| "BinaryOpcode_val SubAssign = 23"
| "BinaryOpcode_val ShlAssign = 24"
| "BinaryOpcode_val ShrAssign = 25"
| "BinaryOpcode_val AndAssign = 26"
| "BinaryOpcode_val XorAssign = 27"
| "BinaryOpcode_val OrAssign = 28"
| "BinaryOpcode_val Comma = 29"

definition isMultiplicativeOp :: "BinaryOpcode \<Rightarrow> bool" where
  "isMultiplicativeOp Opc \<longleftrightarrow>
     BinaryOpcode_val Opc \<ge> BinaryOpcode_val Mul \<and> BinaryOpcode_val Opc \<le> BinaryOpcode_val Rem"

definition isAdditiveOp :: "BinaryOpcode \<Rightarrow> bool" where
  "isAdditiveOp Opc \<longleftrightarrow> Opc = Add \<or> Opc = Sub"

definition isShiftOp :: "BinaryOpcode \<Rightarrow> bool" where
  "isShiftOp Opc \<longleftrightarrow> Opc = Shl \<or> Opc = Shr"

definition isBitwiseOp :: "BinaryOpcode \<Rightarrow> bool" where
  "isBitwiseOp Opc \<longleftrightarrow>
     BinaryOpcode_val Opc \<ge> BinaryOpcode_val And \<and> BinaryOpcode_val Opc \<le> BinaryOpcode_val Or"

definition isRelationalOp :: "BinaryOpcode \<Rightarrow> bool" where
  "isRelationalOp Opc \<longleftrightarrow>
     BinaryOpcode_val Opc \<ge> BinaryOpcode_val LT \<and> BinaryOpcode_val Opc \<le> BinaryOpcode_val GE"

definition isEqualityOp :: "BinaryOpcode \<Rightarrow> bool" where
  "isEqualityOp Opc \<longleftrightarrow> Opc = EQ \<or> Opc = NE"

definition isLogicalOp :: "BinaryOpcode \<Rightarrow> bool" where
  "isLogicalOp Opc \<longleftrightarrow> Opc = LAnd \<or> Opc = LOr"

definition isAssignmentOp :: "BinaryOpcode \<Rightarrow> bool" where
  "isAssignmentOp Opc \<longleftrightarrow>
     BinaryOpcode_val Opc \<ge> BinaryOpcode_val Assign \<and> BinaryOpcode_val Opc \<le> BinaryOpcode_val OrAssign"

definition isCompoundAssignmentOp :: "BinaryOpcode \<Rightarrow> bool" where
  "isCompoundAssignmentOp Opc \<longleftrightarrow>
     BinaryOpcode_val Opc > BinaryOpcode_val Assign \<and> BinaryOpcode_val Opc \<le> BinaryOpcode_val OrAssign"

definition isShiftAssignOp :: "BinaryOpcode \<Rightarrow> bool" where
  "isShiftAssignOp Opc \<longleftrightarrow> Opc = ShlAssign \<or> Opc = ShrAssign"

text \<open>\<open>PreDefinedExpr::IdentType\<close>; the enumerator \<open>Func\<close> is written \<open>Func_id\<close>.\<close>

datatype IdentType = Func_id | Function | PrettyFunction

subsection \<open>Kind tags\<close>

text \<open>
  Modelled from the spec: the enumeration \<open>StmtClass\<close> and its markers
  \<open>firstExprConstant\<close> and \<open>lastExprConstant\<close>, declared in \<open>clang/AST/Stmt.h\<close>,
  which is not among the sources.  The spec: "an enumerated, totally ordered identifier
  distinguishing variants", where "first/last expression-kind markers bound exactly the
  contiguous sub-range occupied by expression variants within the larger statement-kind
  space".  The enumerators are the tags the constructors of \<open>Expr.h\<close> pass to \<open>Stmt\<close>,
  in the order of the header, after the tags of the two statement classes the header
  refers to (\<open>CompoundStmt\<close> and \<open>LabelStmt\<close>).  \<open>CompoundAssignOperator\<close> has no tag of
  its own: its constructor passes \<open>BinaryOperatorClass\<close>.
\<close>

datatype StmtClass =
    CompoundStmtClass
  | LabelStmtClass
  | DeclRefExprClass
  | PreDefinedExprClass
  | IntegerLiteralClass
  | CharacterLiteralClass
  | FloatingLiteralClass
  | StringLiteralClass
  | ParenExprClass
  | UnaryOperatorClass
  | SizeOfAlignOfTypeExprClass
  | ArraySubscriptExprClass
  | CallExprClass
  | MemberExprClass
  | OCUVectorElementExprClass
  | CompoundLiteralExprClass
  | ImplicitCastExprClass
  | CastExprClass
  | BinaryOperatorClass
  | ConditionalOperatorClass
  | AddrLabelExprClass
  | StmtExprClass
  | TypesCompatibleExprClass
  | ChooseExprClass

fun StmtClass_val :: "StmtClass \<Rightarrow> nat" where
  "StmtClass_val CompoundStmtClass = 1"
| "StmtClass_val LabelStmtClass = 2"
| "StmtClass_val DeclRefExprClass = 3"
| "StmtClass_val PreDefinedExprClass = 4"
| "StmtClass_val IntegerLiteralClass = 5"
| "StmtClass_val CharacterLiteralClass = 6"
| "StmtClass_val FloatingLiteralClass = 7"
| "StmtClass_val StringLiteralClass = 8"
| "StmtClass_val ParenExprClass = 9"
| "StmtClass_val UnaryOperatorClass = 10"
| "StmtClass_val SizeOfAlignOfTypeExprClass = 11"
| "StmtClass_val ArraySubscriptExprClass = 12"
| "StmtClass_val CallExprClass = 13"
| "StmtClass_val MemberExprClass = 14"
| "StmtClass_val OCUVectorElementExprClass = 15"
| "StmtClass_val CompoundLiteralExprClass = 16"
| "StmtClass_val ImplicitCastExprClass = 17"
| "StmtClass_val CastExprClass = 18"
| "StmtClass_val BinaryOperatorClass = 19"
| "StmtClass_val ConditionalOperatorClass = 20"
| "StmtClass_val AddrLabelExprClass = 21"
| "StmtClass_val StmtExprClass = 22"
| "StmtClass_val TypesCompatibleExprClass = 23"
| "StmtClass_val ChooseExprClass = 24"

definition firstExprConstant :: nat where
  "firstExprConstant = StmtClass_val DeclRefExprClass"

definition lastExprConstant :: nat where
  "lastExprConstant = StmtClass_val ChooseExprClass"

subsection \<open>Nodes\<close>

text \<open>
  One constructor for each class of the header.  The first field is the \<open>QualType TR\<close> of
  the base class \<open>Expr\<close>; the others are the members of the class in the order of their
  declaration:
  \<^item> \<open>DeclRefExpr\<close>: \<open>D\<close>, \<open>Loc\<close>;
  \<^item> \<open>PreDefinedExpr\<close>: \<open>Loc\<close>, \<open>Type\<close>;
  \<^item> \<open>IntegerLiteral\<close>: \<open>Value\<close>, \<open>Loc\<close>;
  \<^item> \<open>CharacterLiteral\<close>: \<open>Value\<close> (an \<open>unsigned\<close>), \<open>Loc\<close>;
  \<^item> \<open>FloatingLiteral\<close>: \<open>Value\<close> (the bits of the \<open>float\<close>), \<open>Loc\<close>;
  \<^item> \<open>StringLiteral\<close>: \<open>StrData\<close>, \<open>ByteLength\<close>, \<open>IsWide\<close>, \<open>firstTokLoc\<close>, \<open>lastTokLoc\<close>;
  \<^item> \<open>ParenExpr\<close>: \<open>L\<close>, \<open>R\<close>, \<open>Val\<close>;
  \<^item> \<open>UnaryOperator\<close>: \<open>Val\<close>, \<open>Opc\<close>, \<open>Loc\<close>;
  \<^item> \<open>SizeOfAlignOfTypeExpr\<close>: \<open>isSizeof\<close>, \<open>Ty\<close>, \<open>OpLoc\<close>, \<open>RParenLoc\<close>;
  \<^item> \<open>ArraySubscriptExpr\<close>: \<open>Base\<close>, \<open>Idx\<close>, \<open>RBracketLoc\<close>;
  \<^item> \<open>CallExpr\<close>: \<open>Fn\<close>, \<open>Args\<close>, \<open>NumArgs\<close>, \<open>RParenLoc\<close>;
  \<^item> \<open>MemberExpr\<close>: \<open>Base\<close>, \<open>MemberDecl\<close>, \<open>MemberLoc\<close>, \<open>IsArrow\<close>;
  \<^item> \<open>OCUVectorElementExpr\<close>: \<open>Base\<close>, \<open>Accessor\<close> (the identifier's spelling), \<open>AccessorLoc\<close>;
  \<^item> \<open>CompoundLiteralExpr\<close>: \<open>Init\<close>;
  \<^item> \<open>ImplicitCastExpr\<close>: \<open>Op\<close>;
  \<^item> \<open>CastExpr\<close>: \<open>Op\<close>, \<open>Loc\<close>;
  \<^item> \<open>BinaryOperator\<close>: \<open>LHS\<close>, \<open>RHS\<close>, \<open>Opc\<close>;
  \<^item> \<open>CompoundAssignOperator\<close>: the members of \<open>BinaryOperator\<close>, then \<open>ComputationType\<close>;
  \<^item> \<open>ConditionalOperator\<close>: \<open>Cond\<close>, \<open>LHS\<close> ("may be null"), \<open>RHS\<close>;
  \<^item> \<open>AddrLabelExpr\<close>: \<open>AmpAmpLoc\<close>, \<open>LabelLoc\<close>, \<open>Label\<close> (the name of the label it points to);
  \<^item> \<open>StmtExpr\<close>: \<open>SubStmt\<close> (the statements of the \<open>CompoundStmt\<close>), \<open>LParenLoc\<close>, \<open>RParenLoc\<close>;
  \<^item> \<open>TypesCompatibleExpr\<close>: \<open>Type1\<close>, \<open>Type2\<close>, \<open>BuiltinLoc\<close>, \<open>RParenLoc\<close>;
  \<^item> \<open>ChooseExpr\<close>: \<open>Cond\<close>, \<open>LHS\<close>, \<open>RHS\<close>, \<open>BuiltinLoc\<close>, \<open>RParenLoc\<close>.

  A \<open>Stmt\<close> is an expression or one of the two statement classes the header refers to
  (their members are outside the header; they are modelled from the spec as a list of
  statements and a labelled statement).
\<close>

datatype Expr =
    DeclRefExpr QualType Decl SourceLocation
  | PreDefinedExpr QualType SourceLocation IdentType
  | IntegerLiteral QualType APInt SourceLocation
  | CharacterLiteral QualType "32 word" SourceLocation
  | FloatingLiteral QualType "32 word" SourceLocation
  | StringLiteral QualType string "32 word" bool SourceLocation SourceLocation
  | ParenExpr QualType SourceLocation SourceLocation Expr
  | UnaryOperator QualType Expr UnaryOpcode SourceLocation
  | SizeOfAlignOfTypeExpr QualType bool QualType SourceLocation SourceLocation
  | ArraySubscriptExpr QualType Expr Expr SourceLocation
  | CallExpr QualType Expr "Expr list" "32 word" SourceLocation
  | MemberExpr QualType Expr FieldDecl SourceLocation bool
  | OCUVectorElementExpr QualType Expr string SourceLocation
  | CompoundLiteralExpr QualType Expr
  | ImplicitCastExpr QualType Expr
  | CastExpr QualType Expr SourceLocation
  | BinaryOperator QualType Expr Expr BinaryOpcode
  | CompoundAssignOperator QualType Expr Expr BinaryOpcode QualType
  | ConditionalOperator QualType Expr "Expr option" Expr
  | AddrLabelExpr QualType SourceLocation SourceLocation string
  | StmtExpr QualType "Stmt list" SourceLocation SourceLocation
  | TypesCompatibleExpr QualType QualType QualType SourceLocation SourceLocation
  | ChooseExpr QualType Expr Expr Expr SourceLocation SourceLocation
and Stmt =
    ExprStmt Expr
  | CompoundStmt "Stmt list"
  | LabelStmt string Stmt

text \<open>
  The kind tag of a node: the \<open>StmtClass\<close> its constructor passes to \<open>Expr(SC, T)\<close> and
  so to \<open>Stmt(SC)\<close>.  The protected constructor of \<open>BinaryOperator\<close> that
  \<open>CompoundAssignOperator\<close> calls passes \<open>BinaryOperatorClass\<close> as well.
\<close>

fun sClass :: "Expr \<Rightarrow> StmtClass" where
  "sClass (DeclRefExpr TR D Loc) = DeclRefExprClass"
| "sClass (PreDefinedExpr TR Loc IT) = PreDefinedExprClass"
| "sClass (IntegerLiteral TR V Loc) = IntegerLiteralClass"
| "sClass (CharacterLiteral TR V Loc) = CharacterLiteralClass"
| "sClass (FloatingLiteral TR V Loc) = FloatingLiteralClass"
| "sClass (StringLiteral TR StrData ByteLength IsWide firstTokLoc lastTokLoc) = StringLiteralClass"
| "sClass (ParenExpr TR L R Val) = ParenExprClass"
| "sClass (UnaryOperator TR Val Opc Loc) = UnaryOperatorClass"
| "sClass (SizeOfAlignOfTypeExpr TR isSizeof Ty OpLoc RParenLoc) = SizeOfAlignOfTypeExprClass"
| "sClass (ArraySubscriptExpr TR Base Idx RBracketLoc) = ArraySubscriptExprClass"
| "sClass (CallExpr TR Fn Args NumArgs RParenLoc) = CallExprClass"
| "sClass (MemberExpr TR Base MemberDecl MemberLoc IsArrow) = MemberExprClass"
| "sClass (OCUVectorElementExpr TR Base Accessor AccessorLoc) = OCUVectorElementExprClass"
| "sClass (CompoundLiteralExpr TR Init) = CompoundLiteralExprClass"
| "sClass (ImplicitCastExpr TR Op) = ImplicitCastExprClass"
| "sClass (CastExpr TR Op Loc) = CastExprClass"
| "sClass (BinaryOperator TR LHS RHS Opc) = BinaryOperatorClass"
| "sClass (CompoundAssignOperator TR LHS RHS Opc ComputationType) = BinaryOperatorClass"
| "sClass (ConditionalOperator TR Cond LHS RHS) = ConditionalOperatorClass"
| "sClass (AddrLabelExpr TR AmpAmpLoc LabelLoc Label) = AddrLabelExprClass"
| "sClass (StmtExpr TR SubStmt LParenLoc RParenLoc) = StmtExprClass"
| "sClass (TypesCompatibleExpr TR Type1 Type2 BuiltinLoc RParenLoc) = TypesCompatibleExprClass"
| "sClass (ChooseExpr TR Cond LHS RHS BuiltinLoc RParenLoc) = ChooseExprClass"

fun getStmtClass :: "Stmt \<Rightarrow> StmtClass" where
  "getStmtClass (ExprStmt E) = sClass E"
| "getStmtClass (CompoundStmt Body) = CompoundStmtClass"
| "getStmtClass (LabelStmt Label SubStmt) = LabelStmtClass"

text \<open>\<open>Expr::getType\<close> and \<open>Expr::setType\<close>: the field \<open>TR\<close>.\<close>

fun getType :: "Expr \<Rightarrow> QualType" where
  "getType (DeclRefExpr TR D Loc) = TR"
| "getType (PreDefinedExpr TR Loc IT) = TR"
| "getType (IntegerLiteral TR V Loc) = TR"
| "getType (CharacterLiteral TR V Loc) = TR"
| "getType (FloatingLiteral TR V Loc) = TR"
| "getType (StringLiteral TR StrData ByteLength IsWide firstTokLoc lastTokLoc) = TR"
| "getType (ParenExpr TR L R Val) = TR"
| "getType (UnaryOperator TR Val Opc Loc) = TR"
| "getType (SizeOfAlignOfTypeExpr TR isSizeof Ty OpLoc RParenLoc) = TR"
| "getType (ArraySubscriptExpr TR Base Idx RBracketLoc) = TR"
| "getType (CallExpr TR Fn Args NumArgs RParenLoc) = TR"
| "getType (MemberExpr TR Base MemberDecl MemberLoc IsArrow) = TR"
| "getType (OCUVectorElementExpr TR Base Accessor AccessorLoc) = TR"
| "getType (CompoundLiteralExpr TR Init) = TR"
| "getType (ImplicitCastExpr TR Op) = TR"
| "getType (CastExpr TR Op Loc) = TR"
| "getType (BinaryOperator TR LHS RHS Opc) = TR"
| "getType (CompoundAssignOperator TR LHS RHS Opc ComputationType) = TR"
| "getType (ConditionalOperator TR Cond LHS RHS) = TR"
| "getType (AddrLabelExpr TR AmpAmpLoc LabelLoc Label) = TR"
| "getType (StmtExpr TR SubStmt LParenLoc RParenLoc) = TR"
| "getType (TypesCompatibleExpr TR Type1 Type2 BuiltinLoc RParenLoc) = TR"
| "getType (ChooseExpr TR Cond LHS RHS BuiltinLoc RParenLoc) = TR"

fun setType :: "QualType \<Rightarrow> Expr \<Rightarrow> Expr" where
  "setType t (DeclRefExpr TR D Loc) = DeclRefExpr t D Loc"
| "setType t (PreDefinedExpr TR Loc IT) = PreDefinedExpr t Loc IT"
| "setType t (IntegerLiteral TR V Loc) = IntegerLiteral t V Loc"
| "setType t (CharacterLiteral TR V Loc) = CharacterLiteral t V Loc"
| "setType t (FloatingLiteral TR V Loc) = FloatingLiteral t V Loc"
| "setType t (StringLiteral TR StrData ByteLength IsWide firstTokLoc lastTokLoc) =
     StringLiteral t StrData ByteLength IsWide firstTokLoc lastTokLoc"
| "setType t (ParenExpr TR L R Val) = ParenExpr t L R Val"
| "setType t (UnaryOperator TR Val Opc Loc) = UnaryOperator t Val Opc Loc"
| "setType t (SizeOfAlignOfTypeExpr TR isSizeof Ty OpLoc RParenLoc) =
     SizeOfAlignOfTypeExpr t isSizeof Ty OpLoc RParenLoc"
| "setType t (ArraySubscriptExpr TR Base Idx RBracketLoc) = ArraySubscriptExpr t Base Idx RBracketLoc"
| "setType t (CallExpr TR Fn Args NumArgs RParenLoc) = CallExpr t Fn Args NumArgs RParenLoc"
| "setType t (MemberExpr TR Base MemberDecl MemberLoc IsArrow) = MemberExpr t Base MemberDecl MemberLoc IsArrow"
| "setType t (OCUVectorElementExpr TR Base Accessor AccessorLoc) = OCUVectorElementExpr t Base Accessor AccessorLoc"
| "setType t (CompoundLiteralExpr TR Init) = CompoundLiteralExpr t Init"
| "setType t (ImplicitCastExpr TR Op) = ImplicitCastExpr t Op"
| "setType t (CastExpr TR Op Loc) = CastExpr t Op Loc"
| "setType t (BinaryOperator TR LHS RHS Opc) = BinaryOperator t LHS RHS Opc"
| "setType t (CompoundAssignOperator TR LHS RHS Opc ComputationType) =
     CompoundAssignOperator t LHS RHS Opc ComputationType"
| "setType t (ConditionalOperator TR Cond LHS RHS) = ConditionalOperator t Cond LHS RHS"
| "setType t (AddrLabelExpr TR AmpAmpLoc LabelLoc Label) = AddrLabelExpr t AmpAmpLoc LabelLoc Label"
| "setType t (StmtExpr TR SubStmt LParenLoc RParenLoc) = StmtExpr t SubStmt LParenLoc RParenLoc"
| "setType t (TypesCompatibleExpr TR Type1 Type2 BuiltinLoc RParenLoc) =
     TypesCompatibleExpr t Type1 Type2 BuiltinLoc RParenLoc"
| "setType t (ChooseExpr TR Cond LHS RHS BuiltinLoc RParenLoc) = ChooseExpr t Cond LHS RHS BuiltinLoc RParenLoc"

subsection \<open>Constructors\<close>

text \<open>
  Modelled from the spec: \<open>Type::isIntegerType\<close> of \<open>clang/AST/Type.h\<close>, which is not
  among the sources ("is this an integer type").
\<close>

fun isIntegerType :: "QualType \<Rightarrow> bool" where
  "isIntegerType (QualType (IntegerTy w s) c) = True"
| "isIntegerType (QualType T c) = False"

text \<open>
  The constructors that do more than store their arguments.  A constructor whose body
  starts with an \<open>assert\<close> returns \<open>None\<close> where the assertion fails.
\<close>

definition new_IntegerLiteral :: "APInt \<Rightarrow> QualType \<Rightarrow> SourceLocation \<Rightarrow> Expr option" where
  "new_IntegerLiteral V type l =
     (if isIntegerType type then Some (IntegerLiteral type V l) else None)"

definition new_ParenExpr :: "SourceLocation \<Rightarrow> SourceLocation \<Rightarrow> Expr \<Rightarrow> Expr" where
  "new_ParenExpr l r val = ParenExpr (getType val) l r val"

definition new_MemberExpr :: "Expr \<Rightarrow> bool \<Rightarrow> FieldDecl \<Rightarrow> SourceLocation \<Rightarrow> Expr" where
  "new_MemberExpr base isarrow memberdecl l =
     MemberExpr (FieldDecl_getType memberdecl) base memberdecl l isarrow"

definition new_BinaryOperator :: "Expr \<Rightarrow> Expr \<Rightarrow> BinaryOpcode \<Rightarrow> QualType \<Rightarrow> Expr option" where
  "new_BinaryOperator lhs rhs opc ResTy =
     (if \<not> isCompoundAssignmentOp opc then Some (BinaryOperator ResTy lhs rhs opc) else None)"

definition new_CompoundAssignOperator ::
  "Expr \<Rightarrow> Expr \<Rightarrow> BinaryOpcode \<Rightarrow> QualType \<Rightarrow> QualType \<Rightarrow> Expr option" where
  "new_CompoundAssignOperator lhs rhs opc ResType CompType =
     (if isCompoundAssignmentOp opc then Some (CompoundAssignOperator ResType lhs rhs opc CompType)
      else None)"

subsection \<open>Accessors\<close>

text \<open>
  A member function of a derived class is a function on nodes that is \<open>None\<close> on a node
  of another class, where the C++ caller has no object of the class to call it on.
\<close>

fun ParenExpr_getSubExpr :: "Expr \<Rightarrow> Expr option" where
  "ParenExpr_getSubExpr (ParenExpr TR L R Val) = Some Val"
| "ParenExpr_getSubExpr E = None"

fun getOpcode :: "Expr \<Rightarrow> BinaryOpcode option" where
  "getOpcode (BinaryOperator TR LHS RHS Opc) = Some Opc"
| "getOpcode (CompoundAssignOperator TR LHS RHS Opc ComputationType) = Some Opc"
| "getOpcode E = None"

fun getComputationType :: "Expr \<Rightarrow> QualType option" where
  "getComputationType (CompoundAssignOperator TR LHS RHS Opc ComputationType) = Some ComputationType"
| "getComputationType E = None"

fun getNumArgs :: "Expr \<Rightarrow> 32 word option" where
  "getNumArgs (CallExpr TR Fn Args NumArgs RParenLoc) = Some NumArgs"
| "getNumArgs E = None"

text \<open>\<open>unsigned getNumCommas() const { return NumArgs ? NumArgs - 1 : 0; }\<close>\<close>

definition getNumCommas :: "Expr \<Rightarrow> 32 word option" where
  "getNumCommas E =
     (case getNumArgs E of
        None \<Rightarrow> None
      | Some NumArgs \<Rightarrow> Some (if NumArgs \<noteq> 0 then NumArgs - 1 else 0))"

subsection \<open>Kind tests\<close>

text \<open>
  \<open>Expr::classof(const Stmt *)\<close> is the range test on the kind tag;
  \<open>BinaryOperator::classof(const Stmt *)\<close> compares the tag with \<open>BinaryOperatorClass\<close>.
\<close>

definition Expr_classof :: "Stmt \<Rightarrow> bool" where
  "Expr_classof T \<longleftrightarrow>
     StmtClass_val (getStmtClass T) \<ge> firstExprConstant \<and>
     StmtClass_val (getStmtClass T) \<le> lastExprConstant"

definition BinaryOperator_classof :: "Stmt \<Rightarrow> bool" where
  "BinaryOperator_classof T \<longleftrightarrow> getStmtClass T = BinaryOperatorClass"

text \<open>
  \<open>CompoundAssignOperator::classof\<close> has an overload on \<open>const BinaryOperator *\<close>, which
  reads the opcode, and one on \<open>const Stmt *\<close>:
  \<open>isa<BinaryOperator>(S) && classof(cast<BinaryOperator>(S))\<close>.  \<open>isa<X>\<close> is
  \<open>X::classof\<close>; \<open>cast<X>\<close> asserts it and is \<open>None\<close> where the assertion fails, which
  the conjunction never reaches.
\<close>

definition isa_BinaryOperator :: "Stmt \<Rightarrow> bool" where
  "isa_BinaryOperator S \<longleftrightarrow> BinaryOperator_classof S"

fun cast_BinaryOperator :: "Stmt \<Rightarrow> Expr option" where
  "cast_BinaryOperator (ExprStmt E) = (if isa_BinaryOperator (ExprStmt E) then Some E else None)"
| "cast_BinaryOperator S = None"

definition CompoundAssignOperator_classof_BinaryOperator :: "Expr \<Rightarrow> bool" where
  "CompoundAssignOperator_classof_BinaryOperator B \<longleftrightarrow>
     (case getOpcode B of Some Opc \<Rightarrow> isCompoundAssignmentOp Opc | None \<Rightarrow> False)"

definition CompoundAssignOperator_classof :: "Stmt \<Rightarrow> bool" where
  "CompoundAssignOperator_classof S \<longleftrightarrow>
     isa_BinaryOperator S \<and>
     (case cast_BinaryOperator S of
        Some B \<Rightarrow> CompoundAssignOperator_classof_BinaryOperator B
      | None \<Rightarrow> False)"

text \<open>\<open>dyn_cast<CompoundAssignOperator>(S)\<close>: the node when the test holds, null otherwise.\<close>

definition dyn_cast_CompoundAssignOperator :: "Stmt \<Rightarrow> Stmt option" where
  "dyn_cast_CompoundAssignOperator S = (if CompoundAssignOperator_classof S then Some S else None)"

subsection \<open>Source ranges\<close>

text \<open>
  Modelled from the spec: the static \<open>UnaryOperator::isPostfix(Opcode)\<close>, declared in the
  header and defined in \<open>Expr.cpp\<close>, which is not among the sources.  The spec lists
  "inc/dec" among the unary opcodes; the header documents the function as "Return true
  if this is a postfix operation, like x++" and the opcodes \<open>PostInc\<close> and \<open>PostDec\<close> as
  the "Postfix increment and decrement operators".
\<close>

definition isPostfix :: "UnaryOpcode \<Rightarrow> bool" where
  "isPostfix Op \<longleftrightarrow> Op = PostInc \<or> Op = PostDec"

text \<open>
  \<open>getSourceRange\<close> as each class overrides it; \<open>getLocStart\<close> and \<open>getLocEnd\<close> are the
  two ends of that range.
\<close>

fun getSourceRange :: "Expr \<Rightarrow> SourceRange" where
  "getSourceRange (DeclRefExpr TR D Loc) = SourceRange1 Loc"
| "getSourceRange (PreDefinedExpr TR Loc IT) = SourceRange1 Loc"
| "getSourceRange (IntegerLiteral TR V Loc) = SourceRange1 Loc"
| "getSourceRange (CharacterLiteral TR V Loc) = SourceRange1 Loc"
| "getSourceRange (FloatingLiteral TR V Loc) = SourceRange1 Loc"
| "getSourceRange (StringLiteral TR StrData ByteLength IsWide firstTokLoc lastTokLoc) =
     SourceRange firstTokLoc lastTokLoc"
| "getSourceRange (ParenExpr TR L R Val) = SourceRange L R"
| "getSourceRange (UnaryOperator TR Val Opc Loc) =
     (if isPostfix Opc then SourceRange (Begin (getSourceRange Val)) Loc
      else SourceRange Loc (End (getSourceRange Val)))"
| "getSourceRange (SizeOfAlignOfTypeExpr TR isSizeof Ty OpLoc RParenLoc) = SourceRange OpLoc RParenLoc"
| "getSourceRange (ArraySubscriptExpr TR Base Idx RBracketLoc) =
     SourceRange (Begin (getSourceRange Base)) RBracketLoc"
| "getSourceRange (CallExpr TR Fn Args NumArgs RParenLoc) =
     SourceRange (Begin (getSourceRange Fn)) RParenLoc"
| "getSourceRange (MemberExpr TR Base MemberDecl MemberLoc IsArrow) =
     SourceRange (Begin (getSourceRange Base)) MemberLoc"
| "getSourceRange (OCUVectorElementExpr TR Base Accessor AccessorLoc) =
     SourceRange (Begin (getSourceRange Base)) AccessorLoc"
| "getSourceRange (CompoundLiteralExpr TR Init) = SourceRange0"
| "getSourceRange (ImplicitCastExpr TR Op) = getSourceRange Op"
| "getSourceRange (CastExpr TR Op Loc) = SourceRange Loc (End (getSourceRange Op))"
| "getSourceRange (BinaryOperator TR LHS RHS Opc) =
     SourceRange (Begin (getSourceRange LHS)) (End (getSourceRange RHS))"
| "getSourceRange (CompoundAssignOperator TR LHS RHS Opc ComputationType) =
     SourceRange (Begin (getSourceRange LHS)) (End (getSourceRange RHS))"
| "getSourceRange (ConditionalOperator TR Cond LHS RHS) =
     SourceRange (Begin (getSourceRange Cond)) (End (getSourceRange RHS))"
| "getSourceRange (AddrLabelExpr TR AmpAmpLoc LabelLoc Label) = SourceRange AmpAmpLoc LabelLoc"
| "getSourceRange (StmtExpr TR SubStmt LParenLoc RParenLoc) = SourceRange LParenLoc RParenLoc"
| "getSourceRange (TypesCompatibleExpr TR Type1 Type2 BuiltinLoc RParenLoc) =
     SourceRange BuiltinLoc RParenLoc"
| "getSourceRange (ChooseExpr TR Cond LHS RHS BuiltinLoc RParenLoc) = SourceRange BuiltinLoc RParenLoc"

definition getLocStart :: "Expr \<Rightarrow> SourceLocation" where
  "getLocStart E = Begin (getSourceRange E)"

definition getLocEnd :: "Expr \<Rightarrow> SourceLocation" where
  "getLocEnd E = End (getSourceRange E)"

text \<open>
  \<open>getExprLoc\<close>, "the preferred location for the arrow when diagnosing a problem with a
  generic expression": \<open>getLocStart\<close>, but for the three classes that override it.
\<close>

fun getExprLoc :: "Expr \<Rightarrow> SourceLocation" where
  "getExprLoc (UnaryOperator TR Val Opc Loc) = Loc"
| "getExprLoc (ArraySubscriptExpr TR Base Idx RBracketLoc) = RBracketLoc"
| "getExprLoc (MemberExpr TR Base MemberDecl MemberLoc IsArrow) = MemberLoc"
| "getExprLoc E = getLocStart E"

subsection \<open>Lvalue classification\<close>

text \<open>The two result enumerations of the header.\<close>

datatype isLvalueResult =
    LV_Valid
  | LV_NotObjectType
  | LV_IncompleteVoidType
  | LV_DuplicateVectorComponents
  | LV_InvalidExpression

datatype isModifiableLvalueResult =
    MLV_Valid
  | MLV_NotObjectType
  | MLV_IncompleteVoidType
  | MLV_DuplicateVectorComponents
  | MLV_InvalidExpression
  | MLV_IncompleteType
  | MLV_ConstQualified
  | MLV_ArrayType

text \<open>
  Modelled from the spec: the queries of \<open>clang/AST/Type.h\<close> and \<open>clang/AST/Decl.h\<close> that
  the classification reads, neither header being among the sources: whether a type is
  void, is an array type, is incomplete (void, or a structure or union without a
  definition), and whether "any transitively-contained member of a structure/union type
  carries a non-modifiable qualifier", a walk of the member list that stops "at the first
  violation found"; whether a declaration is "a variable-like entity".
\<close>

fun isVoidType :: "QualType \<Rightarrow> bool" where
  "isVoidType (QualType VoidTy c) = True"
| "isVoidType (QualType T c) = False"

fun isArrayType :: "QualType \<Rightarrow> bool" where
  "isArrayType (QualType (ArrayTy elt) c) = True"
| "isArrayType (QualType T c) = False"

fun isIncompleteType :: "QualType \<Rightarrow> bool" where
  "isIncompleteType (QualType VoidTy c) = True"
| "isIncompleteType (QualType (RecordTy isDefinition members) c) = (\<not> isDefinition)"
| "isIncompleteType (QualType T c) = False"

fun hasConstFields :: "Type \<Rightarrow> bool" and isNonModifiable :: "QualType \<Rightarrow> bool" where
  "hasConstFields (RecordTy isDefinition members) = list_ex isNonModifiable members"
| "hasConstFields (ArrayTy elt) = isNonModifiable elt"
| "hasConstFields VoidTy = False"
| "hasConstFields (IntegerTy w s) = False"
| "hasConstFields (FloatingTy w) = False"
| "hasConstFields (PointerTy pointee) = False"
| "hasConstFields (FunctionTy res) = False"
| "hasConstFields (VectorTy elt n) = False"
| "isNonModifiable (QualType T c) = (c \<or> hasConstFields T)"

fun isVariableLike :: "Decl \<Rightarrow> bool" where
  "isVariableLike (VarDecl name) = True"
| "isVariableLike (FunctionDecl name) = False"
| "isVariableLike (EnumConstantDecl name) = False"

text \<open>
  Modelled from the spec: \<open>OCUVectorElementExpr::containsDuplicateElements\<close>, declared in
  the header ("Return true if any element access is repeated") and defined elsewhere:
  "the accessor encodes duplicate component selection (e.g. \<open>.xx\<close>)".
\<close>

definition containsDuplicateElements :: "string \<Rightarrow> bool" where
  "containsDuplicateElements Accessor \<longleftrightarrow> \<not> distinct Accessor"

text \<open>
  Modelled from the spec: \<open>Expr::isLvalue\<close>, declared in the header; its body is in
  \<open>Expr.cpp\<close>, which is not among the sources.  The rules of the spec, kind by kind:
  a reference to a declaration is valid iff the declaration is a variable-like entity;
  parentheses "recurse into the child"; an array subscript is "always valid" unless the
  element type is incomplete void; a member access recurses "into the base only for the
  dot form", the arrow form being valid; a dereference is valid "unless the pointee is
  incomplete void"; a vector-element access is valid unless its accessor repeats a
  component; a string literal is valid; a compound literal is "treated as valid"; a
  conditional is invalid "except where both branches are themselves lvalues of compatible
  kind"; every other kind is \<open>InvalidExpression\<close>.  The element type of a subscript and
  the pointee of a dereference are the result type of the node.  The compatibility of two
  types is the static \<open>Type::typesAreCompatible\<close>, which the header calls and which is
  defined elsewhere: it is the parameter \<open>compatible\<close>.
\<close>

fun isLvalue :: "(QualType \<Rightarrow> QualType \<Rightarrow> bool) \<Rightarrow> Expr \<Rightarrow> isLvalueResult" where
  "isLvalue compatible (DeclRefExpr TR D Loc) =
     (if isVariableLike D then LV_Valid else LV_InvalidExpression)"
| "isLvalue compatible (ParenExpr TR L R Val) = isLvalue compatible Val"
| "isLvalue compatible (ArraySubscriptExpr TR Base Idx RBracketLoc) =
     (if isVoidType TR then LV_IncompleteVoidType else LV_Valid)"
| "isLvalue compatible (MemberExpr TR Base MemberDecl MemberLoc IsArrow) =
     (if IsArrow then LV_Valid else isLvalue compatible Base)"
| "isLvalue compatible (UnaryOperator TR Val Opc Loc) =
     (if Opc = Deref then (if isVoidType TR then LV_IncompleteVoidType else LV_Valid)
      else LV_InvalidExpression)"
| "isLvalue compatible (OCUVectorElementExpr TR Base Accessor AccessorLoc) =
     (if containsDuplicateElements Accessor then LV_DuplicateVectorComponents else LV_Valid)"
| "isLvalue compatible (StringLiteral TR StrData ByteLength IsWide firstTokLoc lastTokLoc) =
     LV_Valid"
| "isLvalue compatible (CompoundLiteralExpr TR Init) = LV_Valid"
| "isLvalue compatible (ConditionalOperator TR Cond (Some LHS) RHS) =
     (if isLvalue compatible LHS = LV_Valid \<and> isLvalue compatible RHS = LV_Valid \<and>
         compatible (getType LHS) (getType RHS)
      then LV_Valid else LV_InvalidExpression)"
| "isLvalue compatible (ConditionalOperator TR Cond None RHS) = LV_InvalidExpression"
| "isLvalue compatible (PreDefinedExpr TR Loc IT) = LV_InvalidExpression"
| "isLvalue compatible (IntegerLiteral TR V Loc) = LV_InvalidExpression"
| "isLvalue compatible (CharacterLiteral TR V Loc) = LV_InvalidExpression"
| "isLvalue compatible (FloatingLiteral TR V Loc) = LV_InvalidExpression"
| "isLvalue compatible (SizeOfAlignOfTypeExpr TR isSizeof Ty OpLoc RParenLoc) =
     LV_InvalidExpression"
| "isLvalue compatible (CallExpr TR Fn Args NumArgs RParenLoc) = LV_InvalidExpression"
| "isLvalue compatible (ImplicitCastExpr TR Op) = LV_InvalidExpression"
| "isLvalue compatible (CastExpr TR Op Loc) = LV_InvalidExpression"
| "isLvalue compatible (BinaryOperator TR LHS RHS Opc) = LV_InvalidExpression"
| "isLvalue compatible (CompoundAssignOperator TR LHS RHS Opc ComputationType) =
     LV_InvalidExpression"
| "isLvalue compatible (AddrLabelExpr TR AmpAmpLoc LabelLoc Label) = LV_InvalidExpression"
| "isLvalue compatible (StmtExpr TR SubStmt LParenLoc RParenLoc) = LV_InvalidExpression"
| "isLvalue compatible (TypesCompatibleExpr TR Type1 Type2 BuiltinLoc RParenLoc) =
     LV_InvalidExpression"
| "isLvalue compatible (ChooseExpr TR Cond LHS RHS BuiltinLoc RParenLoc) =
     LV_InvalidExpression"

text \<open>
  Modelled from the spec: \<open>Expr::isModifiableLvalue\<close>, declared in the header; its body is
  in \<open>Expr.cpp\<close>, which is not among the sources.  The spec: "first require \<open>Valid\<close> from
  the base classifier (propagating its failure verbatim); then additionally reject array
  types (\<open>ArrayType\<close>), incomplete types (\<open>IncompleteType\<close>), and types qualified as
  non-modifiable, including recursive rejection if any transitively-contained member of a
  structure/union type carries a non-modifiable qualifier".
\<close>

definition isModifiableLvalue ::
  "(QualType \<Rightarrow> QualType \<Rightarrow> bool) \<Rightarrow> Expr \<Rightarrow> isModifiableLvalueResult" where
  "isModifiableLvalue compatible E =
     (case isLvalue compatible E of
        LV_NotObjectType \<Rightarrow> MLV_NotObjectType
      | LV_IncompleteVoidType \<Rightarrow> MLV_IncompleteVoidType
      | LV_DuplicateVectorComponents \<Rightarrow> MLV_DuplicateVectorComponents
      | LV_InvalidExpression \<Rightarrow> MLV_InvalidExpression
      | LV_Valid \<Rightarrow>
          (if isArrayType (getType E) then MLV_ArrayType
           else if isIncompleteType (getType E) then MLV_IncompleteType
           else if isNonModifiable (getType E) then MLV_ConstQualified
           else MLV_Valid))"

subsection \<open>Integer constant expressions\<close>

text \<open>
  Modelled from the spec: \<open>ASTContext\<close> of \<open>clang/AST/ASTContext.h\<close>, which is not among
  the sources.  The spec has \<open>sizeof\<close> and \<open>alignof\<close> of a type "evaluated structurally
  from the type, independent of this algorithm": the context gives the two numbers.  It
  also gives the answer of the static \<open>Type::typesAreCompatible\<close>, which the header calls
  in \<open>TypesCompatibleExpr::typesAreCompatible\<close> and which is defined elsewhere.
\<close>

record ASTContext =
  getTypeSize :: "QualType \<Rightarrow> nat"
  getTypeAlign :: "QualType \<Rightarrow> nat"
  typesAreCompatible :: "QualType \<Rightarrow> QualType \<Rightarrow> bool"

text \<open>
  Modelled from the spec: the bit-width and the signedness of an integer type
  (\<open>clang/AST/Type.h\<close>, not among the sources), as the pair of the width and the flag
  \<open>IsUnsigned\<close> of the values of the type; \<open>None\<close> for a type that is not an integer type.
\<close>

fun integerFormat :: "QualType \<Rightarrow> (nat \<times> bool) option" where
  "integerFormat (QualType (IntegerTy w s) c) = Some (w, \<not> s)"
| "integerFormat (QualType T c) = None"

text \<open>
  Modelled from the spec: \<open>Expr::isIntegerConstantExpr\<close>, declared in the header; its body
  is in \<open>Expr.cpp\<close>, which is not among the sources.  The spec's operation is
  "\<open>evaluateAsInt(node, context) -> success(arbitrary-precision integer) |
  failure(location-of-first-offending-subexpression)\<close>", with "a single boolean flag" for
  the two modes; the header names the flag \<open>isEvaluated\<close> and gives it the default \<open>true\<close>.
  The result is \<open>Inr\<close> of the value or \<open>Inl\<close> of the location.  The kinds the spec gives a
  rule are the literals, parentheses, the unary and binary operators, the conditional
  operator, \<open>sizeof\<close> and \<open>alignof\<close> of a type, and the casts; the header adds that the
  result of \<open>TypesCompatibleExpr\<close> "can be used in integer constant expressions"; every
  other kind is not constant.

  The definitions from here to \<open>isIntegerConstantExpr\<close> are the parts of that operation.
\<close>

text \<open>
  Modelled from the spec: what \<open>isIntegerConstantExpr\<close> returns at a node that is not a
  constant expression.  In the default mode the node fails "reporting [its] own
  location", which is \<open>getExprLoc\<close>; when the caller "requested treat unknown as zero and
  keep going" the node counts as the value \<open>0\<close> of its result type (of no bits when that
  is not an integer type).
\<close>

definition notICE :: "bool \<Rightarrow> Expr \<Rightarrow> SourceLocation + APSInt" where
  "notICE isEvaluated E =
     (if isEvaluated then Inl (getExprLoc E)
      else (case integerFormat (getType E) of
              Some (w, u) \<Rightarrow> Inr (APSInt_make w u 0)
            | None \<Rightarrow> Inr (APSInt_make 0 True 0)))"

text \<open>
  Modelled from the spec: the result of \<open>isIntegerConstantExpr\<close> at an operator node.  The
  value is computed on integers, "at full precision", and then narrowed "under the node's
  own result type's signedness and width".
\<close>

definition mkResult :: "bool \<Rightarrow> Expr \<Rightarrow> int \<Rightarrow> SourceLocation + APSInt" where
  "mkResult isEvaluated E v =
     (case integerFormat (getType E) of
        Some (w, u) \<Rightarrow> Inr (APSInt_make w u v)
      | None \<Rightarrow> notICE isEvaluated E)"

text \<open>
  Modelled from the spec: the rule of \<open>isIntegerConstantExpr\<close> for "unary arithmetic,
  bitwise-not and logical-not operators", the opcodes of the header's \<open>isArithmeticOp\<close>.
  The other unary opcodes have no rule in the spec and are not constant.
\<close>

fun unaryValue :: "UnaryOpcode \<Rightarrow> int \<Rightarrow> int option" where
  "unaryValue Plus x = Some x"
| "unaryValue Minus x = Some (- x)"
| "unaryValue Not_op x = Some (NOT x)"
| "unaryValue LNot x = Some (if x = 0 then 1 else 0)"
| "unaryValue PostInc x = None"
| "unaryValue PostDec x = None"
| "unaryValue PreInc x = None"
| "unaryValue PreDec x = None"
| "unaryValue AddrOf x = None"
| "unaryValue Deref x = None"
| "unaryValue SizeOf x = None"
| "unaryValue AlignOf x = None"
| "unaryValue Real x = None"
| "unaryValue Imag x = None"
| "unaryValue Extension x = None"

text \<open>
  Modelled from the spec: the rule of \<open>isIntegerConstantExpr\<close> for "binary
  arithmetic/bitwise/shift/relational/equality/logical operators", the opcodes of the
  header's predicates of these names.  The assignment opcodes and the comma have no rule
  in the spec and are not constant.  Division rounds towards zero, as in C.  The spec
  gives no value to a division by zero or to a shift by a negative count: they are not
  constant.  Both operands of a logical operator are evaluated: "the right must still be
  valid as a constant expression even if its value is not needed".
\<close>

definition isConstantBinaryOp :: "BinaryOpcode \<Rightarrow> bool" where
  "isConstantBinaryOp Opc \<longleftrightarrow>
     isMultiplicativeOp Opc \<or> isAdditiveOp Opc \<or> isBitwiseOp Opc \<or> isShiftOp Opc \<or>
     isRelationalOp Opc \<or> isEqualityOp Opc \<or> isLogicalOp Opc"

definition truncDiv :: "int \<Rightarrow> int \<Rightarrow> int" where
  "truncDiv x y = sgn x * sgn y * (\<bar>x\<bar> div \<bar>y\<bar>)"

definition ofBool :: "bool \<Rightarrow> int" where
  "ofBool b = (if b then 1 else 0)"

fun binaryValue :: "BinaryOpcode \<Rightarrow> int \<Rightarrow> int \<Rightarrow> int option" where
  "binaryValue Mul x y = Some (x * y)"
| "binaryValue Div x y = (if y = 0 then None else Some (truncDiv x y))"
| "binaryValue Rem x y = (if y = 0 then None else Some (x - y * truncDiv x y))"
| "binaryValue Add x y = Some (x + y)"
| "binaryValue Sub x y = Some (x - y)"
| "binaryValue Shl x y = (if y < 0 then None else Some (x * 2 ^ nat y))"
| "binaryValue Shr x y = (if y < 0 then None else Some (x div 2 ^ nat y))"
| "binaryValue LT x y = Some (ofBool (x < y))"
| "binaryValue GT x y = Some (ofBool (x > y))"
| "binaryValue LE x y = Some (ofBool (x \<le> y))"
| "binaryValue GE x y = Some (ofBool (x \<ge> y))"
| "binaryValue EQ x y = Some (ofBool (x = y))"
| "binaryValue NE x y = Some (ofBool (x \<noteq> y))"
| "binaryValue And x y = Some (x AND y)"
| "binaryValue Xor x y = Some (x XOR y)"
| "binaryValue Or x y = Some (x OR y)"
| "binaryValue LAnd x y = Some (ofBool (x \<noteq> 0 \<and> y \<noteq> 0))"
| "binaryValue LOr x y = Some (ofBool (x \<noteq> 0 \<or> y \<noteq> 0))"
| "binaryValue Assign x y = None"
| "binaryValue MulAssign x y = None"
| "binaryValue DivAssign x y = None"
| "binaryValue RemAssign x y = None"
| "binaryValue AddAssign x y = None"
| "binaryValue SubAssign x y = None"
| "binaryValue ShlAssign x y = None"
| "binaryValue ShrAssign x y = None"
| "binaryValue AndAssign x y = None"
| "binaryValue XorAssign x y = None"
| "binaryValue OrAssign x y = None"
| "binaryValue Comma x y = None"

text \<open>
  Modelled from the spec: the rule of \<open>isIntegerConstantExpr\<close> for a cast whose operand
  evaluates.  To an integer type: "two's-complement truncation, sign-extension on
  widening of signed operands, zero-extension for unsigned", then the signedness of the
  destination.  A cast to another type is not an integer constant.
\<close>

definition castTo :: "nat \<Rightarrow> bool \<Rightarrow> APSInt \<Rightarrow> APSInt" where
  "castTo DestWidth DestUnsigned x =
     APSInt
       (if isUnsigned x then zextOrTrunc DestWidth (getAPInt x)
        else sextOrTrunc DestWidth (getAPInt x))
       DestUnsigned"

definition evalCast :: "bool \<Rightarrow> Expr \<Rightarrow> APSInt \<Rightarrow> SourceLocation + APSInt" where
  "evalCast isEvaluated E x =
     (case integerFormat (getType E) of
        Some (w, u) \<Rightarrow> Inr (castTo w u x)
      | None \<Rightarrow> notICE isEvaluated E)"

text \<open>
  Modelled from the spec: \<open>Expr::isIntegerConstantExpr\<close> itself, kind by kind.  Integer
  and character literals "are always constant"; floating literals, string literals,
  references to declarations, calls and dereferences "are never integer-constant";
  parentheses "defer to their child"; an operator evaluates its operands, the left one
  first, and the first failure is the result, its location unchanged; the conditional
  operator "requires the condition to evaluate, then only the taken branch must
  evaluate", and without a middle operand its value is the condition's when that is not
  zero.
\<close>

fun isIntegerConstantExpr :: "ASTContext \<Rightarrow> bool \<Rightarrow> Expr \<Rightarrow> SourceLocation + APSInt" where
  "isIntegerConstantExpr Ctx isEvaluated (IntegerLiteral TR V Loc) =
     (case integerFormat TR of
        Some (w, u) \<Rightarrow> Inr (APSInt V u)
      | None \<Rightarrow> notICE isEvaluated (IntegerLiteral TR V Loc))"
| "isIntegerConstantExpr Ctx isEvaluated (CharacterLiteral TR V Loc) =
     mkResult isEvaluated (CharacterLiteral TR V Loc) (uint V)"
| "isIntegerConstantExpr Ctx isEvaluated (FloatingLiteral TR V Loc) =
     notICE isEvaluated (FloatingLiteral TR V Loc)"
| "isIntegerConstantExpr Ctx isEvaluated (StringLiteral TR StrData ByteLength IsWide firstTokLoc lastTokLoc) =
     notICE isEvaluated (StringLiteral TR StrData ByteLength IsWide firstTokLoc lastTokLoc)"
| "isIntegerConstantExpr Ctx isEvaluated (DeclRefExpr TR D Loc) =
     notICE isEvaluated (DeclRefExpr TR D Loc)"
| "isIntegerConstantExpr Ctx isEvaluated (CallExpr TR Fn Args NumArgs RParenLoc) =
     notICE isEvaluated (CallExpr TR Fn Args NumArgs RParenLoc)"
| "isIntegerConstantExpr Ctx isEvaluated (ParenExpr TR L R Val) =
     isIntegerConstantExpr Ctx isEvaluated Val"
| "isIntegerConstantExpr Ctx isEvaluated (UnaryOperator TR Val Opc Loc) =
     (if \<not> isArithmeticOp Opc then notICE isEvaluated (UnaryOperator TR Val Opc Loc)
      else (case isIntegerConstantExpr Ctx isEvaluated Val of
              Inl l \<Rightarrow> Inl l
            | Inr x \<Rightarrow>
                (case unaryValue Opc (getExtValue x) of
                   Some v \<Rightarrow> mkResult isEvaluated (UnaryOperator TR Val Opc Loc) v
                 | None \<Rightarrow> notICE isEvaluated (UnaryOperator TR Val Opc Loc))))"
| "isIntegerConstantExpr Ctx isEvaluated (BinaryOperator TR LHS RHS Opc) =
     (if \<not> isConstantBinaryOp Opc then notICE isEvaluated (BinaryOperator TR LHS RHS Opc)
      else (case isIntegerConstantExpr Ctx isEvaluated LHS of
              Inl l \<Rightarrow> Inl l
            | Inr x \<Rightarrow>
                (case isIntegerConstantExpr Ctx isEvaluated RHS of
                   Inl l \<Rightarrow> Inl l
                 | Inr y \<Rightarrow>
                     (case binaryValue Opc (getExtValue x) (getExtValue y) of
                        Some v \<Rightarrow> mkResult isEvaluated (BinaryOperator TR LHS RHS Opc) v
                      | None \<Rightarrow> notICE isEvaluated (BinaryOperator TR LHS RHS Opc)))))"
| "isIntegerConstantExpr Ctx isEvaluated (CompoundAssignOperator TR LHS RHS Opc ComputationType) =
     notICE isEvaluated (CompoundAssignOperator TR LHS RHS Opc ComputationType)"
| "isIntegerConstantExpr Ctx isEvaluated (ConditionalOperator TR Cond (Some LHS) RHS) =
     (case isIntegerConstantExpr Ctx isEvaluated Cond of
        Inl l \<Rightarrow> Inl l
      | Inr c \<Rightarrow>
          (if getExtValue c \<noteq> 0 then isIntegerConstantExpr Ctx isEvaluated LHS
           else isIntegerConstantExpr Ctx isEvaluated RHS))"
| "isIntegerConstantExpr Ctx isEvaluated (ConditionalOperator TR Cond None RHS) =
     (case isIntegerConstantExpr Ctx isEvaluated Cond of
        Inl l \<Rightarrow> Inl l
      | Inr c \<Rightarrow>
          (if getExtValue c \<noteq> 0 then Inr c
           else isIntegerConstantExpr Ctx isEvaluated RHS))"
| "isIntegerConstantExpr Ctx isEvaluated (SizeOfAlignOfTypeExpr TR isSizeof Ty OpLoc RParenLoc) =
     mkResult isEvaluated (SizeOfAlignOfTypeExpr TR isSizeof Ty OpLoc RParenLoc)
       (int (if isSizeof then getTypeSize Ctx Ty else getTypeAlign Ctx Ty))"
| "isIntegerConstantExpr Ctx isEvaluated (CastExpr TR Op Loc) =
     (case isIntegerConstantExpr Ctx isEvaluated Op of
        Inl l \<Rightarrow> Inl l
      | Inr x \<Rightarrow> evalCast isEvaluated (CastExpr TR Op Loc) x)"
| "isIntegerConstantExpr Ctx isEvaluated (ImplicitCastExpr TR Op) =
     (case isIntegerConstantExpr Ctx isEvaluated Op of
        Inl l \<Rightarrow> Inl l
      | Inr x \<Rightarrow> evalCast isEvaluated (ImplicitCastExpr TR Op) x)"
| "isIntegerConstantExpr Ctx isEvaluated (PreDefinedExpr TR Loc IT) =
     notICE isEvaluated (PreDefinedExpr TR Loc IT)"
| "isIntegerConstantExpr Ctx isEvaluated (ArraySubscriptExpr TR Base Idx RBracketLoc) =
     notICE isEvaluated (ArraySubscriptExpr TR Base Idx RBracketLoc)"
| "isIntegerConstantExpr Ctx isEvaluated (MemberExpr TR Base MemberDecl MemberLoc IsArrow) =
     notICE isEvaluated (MemberExpr TR Base MemberDecl MemberLoc IsArrow)"
| "isIntegerConstantExpr Ctx isEvaluated (OCUVectorElementExpr TR Base Accessor AccessorLoc) =
     notICE isEvaluated (OCUVectorElementExpr TR Base Accessor AccessorLoc)"
| "isIntegerConstantExpr Ctx isEvaluated (CompoundLiteralExpr TR Init) =
     notICE isEvaluated (CompoundLiteralExpr TR Init)"
| "isIntegerConstantExpr Ctx isEvaluated (AddrLabelExpr TR AmpAmpLoc LabelLoc Label) =
     notICE isEvaluated (AddrLabelExpr TR AmpAmpLoc LabelLoc Label)"
| "isIntegerConstantExpr Ctx isEvaluated (StmtExpr TR SubStmt LParenLoc RParenLoc) =
     notICE isEvaluated (StmtExpr TR SubStmt LParenLoc RParenLoc)"
| "isIntegerConstantExpr Ctx isEvaluated (TypesCompatibleExpr TR Type1 Type2 BuiltinLoc RParenLoc) =
     mkResult isEvaluated (TypesCompatibleExpr TR Type1 Type2 BuiltinLoc RParenLoc)
       (ofBool (typesAreCompatible Ctx Type1 Type2))"
| "isIntegerConstantExpr Ctx isEvaluated (ChooseExpr TR Cond LHS RHS BuiltinLoc RParenLoc) =
     notICE isEvaluated (ChooseExpr TR Cond LHS RHS BuiltinLoc RParenLoc)"

section \<open>Properties\<close>

subsection \<open>Opcode families\<close>

lemma isCompoundAssignmentOp_iff:
  "isCompoundAssignmentOp Opc \<longleftrightarrow>
     Opc \<in> {MulAssign, DivAssign, RemAssign, AddAssign, SubAssign, ShlAssign, ShrAssign,
            AndAssign, XorAssign, OrAssign}"
  by (cases Opc) (simp_all add: isCompoundAssignmentOp_def)

lemma sClass_BinaryOperatorClass_iff:
  "sClass E = BinaryOperatorClass \<longleftrightarrow> getOpcode E \<noteq> None"
  by (cases E) simp_all

subsection \<open>Kind tests\<close>

text \<open>
  C4.  For every statement node \<open>S\<close>, \<open>CompoundAssignOperator::classof(S)\<close> holds exactly
  when \<open>S\<close> is a node tagged \<open>BinaryOperatorClass\<close> whose opcode is one of the ten
  compound-assignment opcodes \<open>MulAssign\<close>, ..., \<open>OrAssign\<close> (strictly after \<open>Assign\<close>, up
  to and including \<open>OrAssign\<close>).  The downcast returns the node itself when the test
  holds and null otherwise.  A node built by the public constructor of \<open>BinaryOperator\<close>
  is never matched, and a node built by the constructor of \<open>CompoundAssignOperator\<close>
  always is, so a match is never a node without a computation type.
\<close>

theorem CompoundAssignOperator_classof_iff:
  "(CompoundAssignOperator_classof S \<longleftrightarrow>
      (\<exists>E Opc. S = ExprStmt E \<and> sClass E = BinaryOperatorClass \<and> getOpcode E = Some Opc \<and>
         Opc \<in> {MulAssign, DivAssign, RemAssign, AddAssign, SubAssign, ShlAssign, ShrAssign,
                AndAssign, XorAssign, OrAssign}))
   \<and> (dyn_cast_CompoundAssignOperator S = Some S' \<longrightarrow> S' = S \<and> CompoundAssignOperator_classof S)
   \<and> (\<not> CompoundAssignOperator_classof S \<longrightarrow> dyn_cast_CompoundAssignOperator S = None)
   \<and> (new_BinaryOperator lhs rhs opc ResTy = Some B \<longrightarrow>
        dyn_cast_CompoundAssignOperator (ExprStmt B) = None)
   \<and> (new_CompoundAssignOperator lhs rhs opc ResTy CompType = Some C \<longrightarrow>
        dyn_cast_CompoundAssignOperator (ExprStmt C) = Some (ExprStmt C) \<and>
        getComputationType C = Some CompType)"
proof -
  have a: "CompoundAssignOperator_classof S \<longleftrightarrow>
      (\<exists>E Opc. S = ExprStmt E \<and> sClass E = BinaryOperatorClass \<and> getOpcode E = Some Opc \<and>
         Opc \<in> {MulAssign, DivAssign, RemAssign, AddAssign, SubAssign, ShlAssign, ShrAssign,
                AndAssign, XorAssign, OrAssign})"
  proof (cases S)
    case (ExprStmt E)
    then show ?thesis
      by (cases "getOpcode E")
         (auto simp: CompoundAssignOperator_classof_def isa_BinaryOperator_def
            BinaryOperator_classof_def CompoundAssignOperator_classof_BinaryOperator_def
            sClass_BinaryOperatorClass_iff isCompoundAssignmentOp_iff)
  next
    case (CompoundStmt Body)
    then show ?thesis
      by (simp add: CompoundAssignOperator_classof_def isa_BinaryOperator_def
            BinaryOperator_classof_def)
  next
    case (LabelStmt Label SubStmt)
    then show ?thesis
      by (simp add: CompoundAssignOperator_classof_def isa_BinaryOperator_def
            BinaryOperator_classof_def)
  qed
  have b: "dyn_cast_CompoundAssignOperator S = Some S' \<longrightarrow> S' = S \<and> CompoundAssignOperator_classof S"
    by (auto simp: dyn_cast_CompoundAssignOperator_def split: if_splits)
  have c: "\<not> CompoundAssignOperator_classof S \<longrightarrow> dyn_cast_CompoundAssignOperator S = None"
    by (simp add: dyn_cast_CompoundAssignOperator_def)
  have d: "new_BinaryOperator lhs rhs opc ResTy = Some B \<longrightarrow>
        dyn_cast_CompoundAssignOperator (ExprStmt B) = None"
    by (auto simp: new_BinaryOperator_def dyn_cast_CompoundAssignOperator_def
          CompoundAssignOperator_classof_def isa_BinaryOperator_def
          BinaryOperator_classof_def CompoundAssignOperator_classof_BinaryOperator_def
          split: if_splits)
  have e: "new_CompoundAssignOperator lhs rhs opc ResTy CompType = Some C \<longrightarrow>
        dyn_cast_CompoundAssignOperator (ExprStmt C) = Some (ExprStmt C) \<and>
        getComputationType C = Some CompType"
    by (auto simp: new_CompoundAssignOperator_def dyn_cast_CompoundAssignOperator_def
          CompoundAssignOperator_classof_def isa_BinaryOperator_def
          BinaryOperator_classof_def CompoundAssignOperator_classof_BinaryOperator_def
          split: if_splits)
  from a b c d e show ?thesis by blast
qed

text \<open>
  The statement at \<open>x += y\<close> and at \<open>x + y\<close>, with \<open>x\<close> and \<open>y\<close> of type \<open>int\<close>: the first
  is built by the constructor of \<open>CompoundAssignOperator\<close> and the downcast returns it,
  the second is built by the constructor of \<open>BinaryOperator\<close> and the downcast is null.
\<close>

theorem CompoundAssignOperator_classof_witness:
  "new_CompoundAssignOperator
      (DeclRefExpr (QualType (IntegerTy 32 True) False) (VarDecl ''x'') 1)
      (DeclRefExpr (QualType (IntegerTy 32 True) False) (VarDecl ''y'') 3)
      AddAssign (QualType (IntegerTy 32 True) False) (QualType (IntegerTy 32 True) False)
    = Some (CompoundAssignOperator (QualType (IntegerTy 32 True) False)
        (DeclRefExpr (QualType (IntegerTy 32 True) False) (VarDecl ''x'') 1)
        (DeclRefExpr (QualType (IntegerTy 32 True) False) (VarDecl ''y'') 3)
        AddAssign (QualType (IntegerTy 32 True) False))
   \<and> dyn_cast_CompoundAssignOperator
        (ExprStmt (CompoundAssignOperator (QualType (IntegerTy 32 True) False)
          (DeclRefExpr (QualType (IntegerTy 32 True) False) (VarDecl ''x'') 1)
          (DeclRefExpr (QualType (IntegerTy 32 True) False) (VarDecl ''y'') 3)
          AddAssign (QualType (IntegerTy 32 True) False)))
      = Some (ExprStmt (CompoundAssignOperator (QualType (IntegerTy 32 True) False)
          (DeclRefExpr (QualType (IntegerTy 32 True) False) (VarDecl ''x'') 1)
          (DeclRefExpr (QualType (IntegerTy 32 True) False) (VarDecl ''y'') 3)
          AddAssign (QualType (IntegerTy 32 True) False)))
   \<and> new_BinaryOperator
        (DeclRefExpr (QualType (IntegerTy 32 True) False) (VarDecl ''x'') 1)
        (DeclRefExpr (QualType (IntegerTy 32 True) False) (VarDecl ''y'') 3)
        Add (QualType (IntegerTy 32 True) False)
      = Some (BinaryOperator (QualType (IntegerTy 32 True) False)
          (DeclRefExpr (QualType (IntegerTy 32 True) False) (VarDecl ''x'') 1)
          (DeclRefExpr (QualType (IntegerTy 32 True) False) (VarDecl ''y'') 3) Add)
   \<and> dyn_cast_CompoundAssignOperator
        (ExprStmt (BinaryOperator (QualType (IntegerTy 32 True) False)
          (DeclRefExpr (QualType (IntegerTy 32 True) False) (VarDecl ''x'') 1)
          (DeclRefExpr (QualType (IntegerTy 32 True) False) (VarDecl ''y'') 3) Add))
      = None"
proof -
  let ?int = "QualType (IntegerTy 32 True) False"
  let ?x = "DeclRefExpr ?int (VarDecl ''x'') 1"
  let ?y = "DeclRefExpr ?int (VarDecl ''y'') 3"
  have c: "new_CompoundAssignOperator ?x ?y AddAssign ?int ?int
             = Some (CompoundAssignOperator ?int ?x ?y AddAssign ?int)"
    by (simp add: new_CompoundAssignOperator_def isCompoundAssignmentOp_def)
  have b: "new_BinaryOperator ?x ?y Add ?int = Some (BinaryOperator ?int ?x ?y Add)"
    by (simp add: new_BinaryOperator_def isCompoundAssignmentOp_def)
  from c b
    CompoundAssignOperator_classof_iff
      [of "ExprStmt (BinaryOperator ?int ?x ?y Add)" _ ?x ?y AddAssign ?int
          "BinaryOperator ?int ?x ?y Add" ?int "CompoundAssignOperator ?int ?x ?y AddAssign ?int"]
    CompoundAssignOperator_classof_iff
      [of "ExprStmt (BinaryOperator ?int ?x ?y Add)" _ ?x ?y Add ?int
          "BinaryOperator ?int ?x ?y Add" ?int "CompoundAssignOperator ?int ?x ?y AddAssign ?int"]
  show ?thesis by blast
qed

lemma Expr_classof_ExprStmt: "Expr_classof (ExprStmt E)"
  by (cases E) (simp_all add: Expr_classof_def firstExprConstant_def lastExprConstant_def)

lemma range_sClass:
  "range sClass = {DeclRefExprClass, PreDefinedExprClass, IntegerLiteralClass,
     CharacterLiteralClass, FloatingLiteralClass, StringLiteralClass, ParenExprClass,
     UnaryOperatorClass, SizeOfAlignOfTypeExprClass, ArraySubscriptExprClass, CallExprClass,
     MemberExprClass, OCUVectorElementExprClass, CompoundLiteralExprClass,
     ImplicitCastExprClass, CastExprClass, BinaryOperatorClass, ConditionalOperatorClass,
     AddrLabelExprClass, StmtExprClass, TypesCompatibleExprClass, ChooseExprClass}"
  (is "_ = ?R")
proof
  show "range sClass \<subseteq> ?R"
  proof
    fix C assume "C \<in> range sClass"
    then obtain E where "C = sClass E" by blast
    then show "C \<in> ?R" by (cases E) simp_all
  qed
  have "DeclRefExprClass \<in> range sClass" by (metis sClass.simps(1) rangeI)
  moreover have "PreDefinedExprClass \<in> range sClass" by (metis sClass.simps(2) rangeI)
  moreover have "IntegerLiteralClass \<in> range sClass" by (metis sClass.simps(3) rangeI)
  moreover have "CharacterLiteralClass \<in> range sClass" by (metis sClass.simps(4) rangeI)
  moreover have "FloatingLiteralClass \<in> range sClass" by (metis sClass.simps(5) rangeI)
  moreover have "StringLiteralClass \<in> range sClass" by (metis sClass.simps(6) rangeI)
  moreover have "ParenExprClass \<in> range sClass" by (metis sClass.simps(7) rangeI)
  moreover have "UnaryOperatorClass \<in> range sClass" by (metis sClass.simps(8) rangeI)
  moreover have "SizeOfAlignOfTypeExprClass \<in> range sClass" by (metis sClass.simps(9) rangeI)
  moreover have "ArraySubscriptExprClass \<in> range sClass" by (metis sClass.simps(10) rangeI)
  moreover have "CallExprClass \<in> range sClass" by (metis sClass.simps(11) rangeI)
  moreover have "MemberExprClass \<in> range sClass" by (metis sClass.simps(12) rangeI)
  moreover have "OCUVectorElementExprClass \<in> range sClass" by (metis sClass.simps(13) rangeI)
  moreover have "CompoundLiteralExprClass \<in> range sClass" by (metis sClass.simps(14) rangeI)
  moreover have "ImplicitCastExprClass \<in> range sClass" by (metis sClass.simps(15) rangeI)
  moreover have "CastExprClass \<in> range sClass" by (metis sClass.simps(16) rangeI)
  moreover have "BinaryOperatorClass \<in> range sClass" by (metis sClass.simps(17) rangeI)
  moreover have "ConditionalOperatorClass \<in> range sClass" by (metis sClass.simps(19) rangeI)
  moreover have "AddrLabelExprClass \<in> range sClass" by (metis sClass.simps(20) rangeI)
  moreover have "StmtExprClass \<in> range sClass" by (metis sClass.simps(21) rangeI)
  moreover have "TypesCompatibleExprClass \<in> range sClass" by (metis sClass.simps(22) rangeI)
  moreover have "ChooseExprClass \<in> range sClass" by (metis sClass.simps(23) rangeI)
  ultimately show "?R \<subseteq> range sClass" by simp
qed

text \<open>
  C5.  For every statement node \<open>T\<close>, \<open>Expr::classof(T)\<close> holds exactly when the kind tag
  of \<open>T\<close> lies between \<open>firstExprConstant\<close> and \<open>lastExprConstant\<close>; the tags in that
  interval are exactly the tags that the constructors of the expression classes pass to
  \<open>Stmt\<close>; and so the test holds exactly when \<open>T\<close> is an expression.
\<close>

theorem Expr_classof_range:
  "(Expr_classof T \<longleftrightarrow>
      firstExprConstant \<le> StmtClass_val (getStmtClass T) \<and>
      StmtClass_val (getStmtClass T) \<le> lastExprConstant)
   \<and> {C. firstExprConstant \<le> StmtClass_val C \<and> StmtClass_val C \<le> lastExprConstant} = range sClass
   \<and> (Expr_classof T \<longleftrightarrow> (\<exists>E. T = ExprStmt E))"
proof -
  have a: "{C. firstExprConstant \<le> StmtClass_val C \<and> StmtClass_val C \<le> lastExprConstant} = range sClass"
  proof (rule set_eqI)
    fix C
    show "C \<in> {C. firstExprConstant \<le> StmtClass_val C \<and> StmtClass_val C \<le> lastExprConstant}
            \<longleftrightarrow> C \<in> range sClass"
      unfolding range_sClass by (cases C) (simp_all add: firstExprConstant_def lastExprConstant_def)
  qed
  have b: "Expr_classof T \<longleftrightarrow> (\<exists>E. T = ExprStmt E)"
    by (cases T) (simp_all add: Expr_classof_ExprStmt, simp_all add: Expr_classof_def firstExprConstant_def)
  show ?thesis using a b by (simp add: Expr_classof_def)
qed

subsection \<open>Constructors and accessors\<close>

text \<open>
  C9.  For every expression \<open>val\<close>, the node that the constructor of \<open>ParenExpr\<close> builds
  around \<open>val\<close> has the type of \<open>val\<close> and has \<open>val\<close> as its sub-expression; the same holds
  through a second pair of parentheses.
\<close>

theorem new_ParenExpr_getType:
  "getType (new_ParenExpr l r val) = getType val \<and>
   ParenExpr_getSubExpr (new_ParenExpr l r val) = Some val \<and>
   getType (new_ParenExpr l' r' (new_ParenExpr l r val)) = getType val"
  by (simp add: new_ParenExpr_def)

lemma uint_pred_32: "(n::32 word) \<noteq> 0 \<Longrightarrow> uint (n - 1) = uint n - 1"
  using uint_minus_simple_alt word_le_sub1 by force

text \<open>
  C10.  For every call node, \<open>getNumCommas\<close> returns a value: the number of arguments
  minus one (as integers, without wrap-around) when \<open>NumArgs\<close> is not zero, and \<open>0\<close> when
  \<open>NumArgs\<close> is zero.
\<close>

theorem getNumCommas_CallExpr:
  "\<exists>n. getNumCommas (CallExpr TR Fn Args NumArgs RParenLoc) = Some n \<and>
       (NumArgs \<noteq> 0 \<longrightarrow> uint n = uint NumArgs - 1) \<and>
       (NumArgs = 0 \<longrightarrow> n = 0)"
  by (simp add: getNumCommas_def uint_pred_32)

text \<open>The statement at a call with three arguments and at a call with none.\<close>

theorem getNumCommas_CallExpr_witness:
  "getNumCommas
     (CallExpr (QualType (IntegerTy 32 True) False)
        (DeclRefExpr (QualType (FunctionTy (QualType (IntegerTy 32 True) False)) False)
           (FunctionDecl ''f'') 1)
        [IntegerLiteral (QualType (IntegerTy 32 True) False) (APInt_make 32 1) 3,
         IntegerLiteral (QualType (IntegerTy 32 True) False) (APInt_make 32 2) 5,
         IntegerLiteral (QualType (IntegerTy 32 True) False) (APInt_make 32 3) 7]
        3 8) = Some 2
   \<and> getNumCommas
     (CallExpr (QualType (IntegerTy 32 True) False)
        (DeclRefExpr (QualType (FunctionTy (QualType (IntegerTy 32 True) False)) False)
           (FunctionDecl ''f'') 1)
        [] 0 3) = Some 0"
proof -
  let ?int = "QualType (IntegerTy 32 True) False"
  let ?f = "DeclRefExpr (QualType (FunctionTy ?int) False) (FunctionDecl ''f'') 1"
  let ?args = "[IntegerLiteral ?int (APInt_make 32 1) 3,
                IntegerLiteral ?int (APInt_make 32 2) 5,
                IntegerLiteral ?int (APInt_make 32 3) 7]"
  obtain n :: "32 word" where n: "getNumCommas (CallExpr ?int ?f ?args 3 8) = Some n"
      and "(3::32 word) \<noteq> 0 \<longrightarrow> uint n = uint (3::32 word) - 1"
    using getNumCommas_CallExpr [of ?int ?f ?args 3 8] by blast
  then have "uint n = uint (2::32 word)" by simp
  then have "n = 2" by (simp only: word_uint_eq_iff)
  moreover obtain m :: "32 word" where "getNumCommas (CallExpr ?int ?f [] 0 3) = Some m"
      and "(0::32 word) = 0 \<longrightarrow> m = 0"
    using getNumCommas_CallExpr [of ?int ?f "[]" 0 3] by blast
  ultimately show ?thesis using n by simp
qed

subsection \<open>Lvalue classification\<close>

text \<open>
  C1.  For every expression node \<open>x\<close> (and whatever the compatibility of types is), if
  \<open>isModifiableLvalue\<close> returns \<open>MLV_Valid\<close> on \<open>x\<close> then \<open>isLvalue\<close> returns \<open>LV_Valid\<close> on
  \<open>x\<close>.  The converse does not hold: a reference to a variable whose type is
  const-qualified (and is neither an array type nor incomplete) is a valid lvalue that
  classifies as \<open>MLV_ConstQualified\<close>, and a reference to a variable of array type is a
  valid lvalue that classifies as \<open>MLV_ArrayType\<close>.
\<close>

theorem isModifiableLvalue_imp_isLvalue:
  "(isModifiableLvalue compatible x = MLV_Valid \<longrightarrow> isLvalue compatible x = LV_Valid)
   \<and> \<not> (\<forall>y. isLvalue compatible y = LV_Valid \<longrightarrow> isModifiableLvalue compatible y = MLV_Valid)
   \<and> (isConstQualified TR \<and> \<not> isArrayType TR \<and> \<not> isIncompleteType TR \<longrightarrow>
        isLvalue compatible (DeclRefExpr TR (VarDecl name) Loc) = LV_Valid \<and>
        isModifiableLvalue compatible (DeclRefExpr TR (VarDecl name) Loc) = MLV_ConstQualified)
   \<and> (isArrayType TR' \<longrightarrow>
        isLvalue compatible (DeclRefExpr TR' (VarDecl name) Loc) = LV_Valid \<and>
        isModifiableLvalue compatible (DeclRefExpr TR' (VarDecl name) Loc) = MLV_ArrayType)"
proof -
  have a: "isModifiableLvalue compatible x = MLV_Valid \<longrightarrow> isLvalue compatible x = LV_Valid"
    by (simp add: isModifiableLvalue_def split: isLvalueResult.splits)
  have c: "isConstQualified TR \<and> \<not> isArrayType TR \<and> \<not> isIncompleteType TR \<longrightarrow>
        isLvalue compatible (DeclRefExpr TR (VarDecl name) Loc) = LV_Valid \<and>
        isModifiableLvalue compatible (DeclRefExpr TR (VarDecl name) Loc) = MLV_ConstQualified"
    by (cases TR) (simp add: isModifiableLvalue_def)
  have d: "isArrayType TR' \<longrightarrow>
        isLvalue compatible (DeclRefExpr TR' (VarDecl name) Loc) = LV_Valid \<and>
        isModifiableLvalue compatible (DeclRefExpr TR' (VarDecl name) Loc) = MLV_ArrayType"
    by (simp add: isModifiableLvalue_def)
  have "isLvalue compatible (DeclRefExpr (QualType (IntegerTy 32 True) True) (VarDecl ''x'') 1)
          = LV_Valid"
    by simp
  moreover have "isModifiableLvalue compatible
       (DeclRefExpr (QualType (IntegerTy 32 True) True) (VarDecl ''x'') 1) = MLV_ConstQualified"
    by (simp add: isModifiableLvalue_def)
  ultimately have b:
    "\<not> (\<forall>y. isLvalue compatible y = LV_Valid \<longrightarrow> isModifiableLvalue compatible y = MLV_Valid)"
    by (metis isModifiableLvalueResult.distinct(11))
  from a b c d show ?thesis by blast
qed

text \<open>
  The statement at \<open>x\<close>, \<open>k\<close> and \<open>a\<close>, declared as \<open>int x; const int k; int a[]\<close>: the first
  is a modifiable lvalue and so an lvalue, the other two are lvalues that are not
  modifiable.
\<close>

theorem isModifiableLvalue_imp_isLvalue_witness:
  "isModifiableLvalue (\<lambda>T1 T2. T1 = T2) (DeclRefExpr (QualType (IntegerTy 32 True) False) (VarDecl ''x'') 1)
     = MLV_Valid
   \<and> isLvalue (\<lambda>T1 T2. T1 = T2) (DeclRefExpr (QualType (IntegerTy 32 True) False) (VarDecl ''x'') 1)
     = LV_Valid
   \<and> isLvalue (\<lambda>T1 T2. T1 = T2) (DeclRefExpr (QualType (IntegerTy 32 True) True) (VarDecl ''k'') 1)
     = LV_Valid
   \<and> isModifiableLvalue (\<lambda>T1 T2. T1 = T2) (DeclRefExpr (QualType (IntegerTy 32 True) True) (VarDecl ''k'') 1)
     = MLV_ConstQualified
   \<and> isLvalue (\<lambda>T1 T2. T1 = T2)
       (DeclRefExpr (QualType (ArrayTy (QualType (IntegerTy 32 True) False)) False) (VarDecl ''k'') 1)
     = LV_Valid
   \<and> isModifiableLvalue (\<lambda>T1 T2. T1 = T2)
       (DeclRefExpr (QualType (ArrayTy (QualType (IntegerTy 32 True) False)) False) (VarDecl ''k'') 1)
     = MLV_ArrayType"
proof -
  let ?int = "QualType (IntegerTy 32 True) False"
  have m: "isModifiableLvalue (\<lambda>T1 T2. T1 = T2) (DeclRefExpr ?int (VarDecl ''x'') 1) = MLV_Valid"
    by (simp add: isModifiableLvalue_def)
  have k: "isConstQualified (QualType (IntegerTy 32 True) True) \<and>
      \<not> isArrayType (QualType (IntegerTy 32 True) True) \<and>
      \<not> isIncompleteType (QualType (IntegerTy 32 True) True)"
    by simp
  have a: "isArrayType (QualType (ArrayTy ?int) False)"
    by simp
  from m k a
    isModifiableLvalue_imp_isLvalue
      [of "\<lambda>T1 T2. T1 = T2" "DeclRefExpr ?int (VarDecl ''x'') 1"
          "QualType (IntegerTy 32 True) True" "''k''" 1 "QualType (ArrayTy ?int) False"]
  show ?thesis by blast
qed

subsection \<open>Arbitrary-precision integers\<close>

lemma getBitWidth_make [simp]: "getBitWidth (APInt_make w v) = w"
  by transfer simp

lemma getZExtValue_make [simp]: "getZExtValue (APInt_make w v) = v mod 2 ^ w"
  by transfer simp

lemma getZExtValue_less: "getZExtValue a < 2 ^ getBitWidth a"
  by transfer auto

lemma APInt_eq_iff: "a = b \<longleftrightarrow> getBitWidth a = getBitWidth b \<and> getZExtValue a = getZExtValue b"
  by transfer auto

lemma bit_top: 
  assumes "v < 2 ^ Suc n" shows "bit (v::nat) n \<longleftrightarrow> 2 ^ n \<le> v"
proof -
  have "v div 2 ^ n < 2" using assms by (simp add: less_mult_imp_div_less mult.commute)
  moreover have "0 < v div 2 ^ n \<longleftrightarrow> 2 ^ n \<le> v" by (simp add: div_greater_zero_iff)
  ultimately show ?thesis unfolding bit_iff_odd
    by (metis One_nat_def even_zero less_2_cases_iff odd_one neq0_conv not_gr_zero)
qed

lemma isNegative_iff:
  "isNegative a \<longleftrightarrow> 0 < getBitWidth a \<and> 2 ^ (getBitWidth a - 1) \<le> getZExtValue a"
proof (cases "getBitWidth a")
  case 0
  then have "getZExtValue a = 0" using getZExtValue_less [of a] by simp
  with 0 show ?thesis by (simp add: isNegative_def)
next
  case (Suc n)
  then have "getZExtValue a < 2 ^ Suc n" using getZExtValue_less [of a] by simp
  with Suc show ?thesis by (simp add: isNegative_def bit_top)
qed

lemma int_getZExtValue_less: "int (getZExtValue a) < 2 ^ getBitWidth a"
proof -
  have "int (getZExtValue a) < int (2 ^ getBitWidth a)"
    using getZExtValue_less [of a] by (simp only: of_nat_less_iff)
  then show ?thesis by simp
qed

lemma isNegative_int_iff:
  "isNegative a \<longleftrightarrow> 0 < getBitWidth a \<and> (2::int) ^ (getBitWidth a - 1) \<le> int (getZExtValue a)"
proof -
  have "(2::int) ^ (getBitWidth a - 1) \<le> int (getZExtValue a)
          \<longleftrightarrow> int (2 ^ (getBitWidth a - 1)) \<le> int (getZExtValue a)" by simp
  also have "\<dots> \<longleftrightarrow> 2 ^ (getBitWidth a - 1) \<le> getZExtValue a" by (simp only: of_nat_le_iff)
  finally show ?thesis by (simp add: isNegative_iff)
qed

lemma getSExtValue_mod: "getSExtValue a mod 2 ^ getBitWidth a = int (getZExtValue a)"
proof -
  have "int (getZExtValue a) mod 2 ^ getBitWidth a = int (getZExtValue a)"
    using int_getZExtValue_less [of a] by simp
  then show ?thesis by (simp add: getSExtValue_def)
qed

lemma getSExtValue_bounds:
  "- (2 ^ (getBitWidth a - 1)) \<le> getSExtValue a \<and> getSExtValue a < 2 ^ (getBitWidth a - 1)"
proof (cases "getBitWidth a")
  case 0
  then have "getZExtValue a = 0" using getZExtValue_less [of a] by simp
  with 0 show ?thesis by (simp add: getSExtValue_def isNegative_iff)
next
  case (Suc n)
  then have lt: "int (getZExtValue a) < 2 * 2 ^ n"
    using int_getZExtValue_less [of a] by simp
  show ?thesis
  proof (cases "isNegative a")
    case True
    then have "(2::int) ^ n \<le> int (getZExtValue a)"
      using Suc by (simp add: isNegative_int_iff)
    with True Suc lt show ?thesis by (simp add: getSExtValue_def)
  next
    case False
    then have "int (getZExtValue a) < 2 ^ n"
      using Suc by (simp add: isNegative_int_iff)
    moreover have "- (2 ^ n) \<le> (0::int)" by simp
    then have "- (2 ^ n) \<le> int (getZExtValue a)" by linarith
    ultimately show ?thesis using False Suc by (simp add: getSExtValue_def)
  qed
qed

lemma getExtValue_mod:
  "getExtValue x mod 2 ^ getBitWidth (getAPInt x) = int (getZExtValue (getAPInt x))"
proof (cases "isUnsigned x")
  case True
  then show ?thesis
    using int_getZExtValue_less [of "getAPInt x"] by (simp add: getExtValue_def)
next
  case False
  then show ?thesis by (simp add: getExtValue_def getSExtValue_mod)
qed

lemma zextOrTrunc_width [simp]: "getBitWidth (zextOrTrunc W a) = W"
  by (simp add: zextOrTrunc_def APInt_zext_def APInt_trunc_def)

lemma sextOrTrunc_width [simp]: "getBitWidth (sextOrTrunc W a) = W"
  by (simp add: sextOrTrunc_def APInt_sext_def APInt_trunc_def)

lemma zextOrTrunc_value: "getZExtValue (zextOrTrunc W a) = getZExtValue a mod 2 ^ W"
  using getZExtValue_less [of a]
  by (auto simp: zextOrTrunc_def APInt_zext_def APInt_trunc_def not_less)

lemma mod_pow2_pow2: "W \<le> w \<Longrightarrow> ((x::int) mod 2 ^ w) mod 2 ^ W = x mod 2 ^ W"
  by (simp add: mod_mod_cancel le_imp_power_dvd)

lemma sextOrTrunc_value:
  "int (getZExtValue (sextOrTrunc W a)) = getSExtValue a mod 2 ^ W"
proof -
  let ?w = "getBitWidth a" and ?v = "getZExtValue a"
  consider (ext) "?w < W" | (trunc) "W < ?w" | (same) "?w = W" by linarith
  then show ?thesis
  proof cases
    case ext
    show ?thesis
    proof (cases "isNegative a")
      case True
      have p: "(2::nat) ^ ?w \<le> 2 ^ W" using ext by (simp add: power_increasing)
      have lt: "?v + (2 ^ W - 2 ^ ?w) < 2 ^ W" using getZExtValue_less [of a] p by linarith
      have "int (getZExtValue (sextOrTrunc W a)) = int (?v + (2 ^ W - 2 ^ ?w))"
        using ext True lt by (simp add: sextOrTrunc_def APInt_sext_def)
      also have "\<dots> = int ?v - 2 ^ ?w + 2 ^ W"
      proof -
        have "int (2 ^ W - 2 ^ ?w) = 2 ^ W - 2 ^ ?w" using p by (simp add: of_nat_diff)
        then show ?thesis by simp
      qed
      also have "\<dots> = (int ?v - 2 ^ ?w) mod 2 ^ W"
      proof -
        have "(2::int) ^ ?w \<le> 2 ^ W" using ext by (simp add: power_increasing)
        then have "0 \<le> int ?v - 2 ^ ?w + 2 ^ W"
          using of_nat_0_le_iff [of ?v] by linarith
        moreover have "int ?v - 2 ^ ?w + 2 ^ W < 2 ^ W" using int_getZExtValue_less [of a] by simp
        ultimately have "(int ?v - 2 ^ ?w + 2 ^ W) mod 2 ^ W = int ?v - 2 ^ ?w + 2 ^ W"
          by (rule mod_pos_pos_trivial)
        moreover have "(int ?v - 2 ^ ?w + 2 ^ W) mod 2 ^ W = (int ?v - 2 ^ ?w) mod 2 ^ W"
          by (rule mod_add_self2)
        ultimately show ?thesis by simp
      qed
      finally show ?thesis using True by (simp add: getSExtValue_def)
    next
      case False
      have "?v < 2 ^ W" using getZExtValue_less [of a] ext
        by (meson less_trans power_strict_increasing_iff one_less_numeral_iff semiring_norm(76))
      then have "int ?v < 2 ^ W" by (metis of_nat_less_iff of_nat_numeral of_nat_power)
      then show ?thesis using ext False \<open>?v < 2 ^ W\<close>
        by (simp add: sextOrTrunc_def APInt_sext_def getSExtValue_def)
    qed
  next
    case trunc
    have "int (getZExtValue (sextOrTrunc W a)) = int ?v mod 2 ^ W"
      using trunc by (simp add: sextOrTrunc_def APInt_trunc_def of_nat_mod)
    also have "\<dots> = (getSExtValue a mod 2 ^ ?w) mod 2 ^ W" by (simp add: getSExtValue_mod)
    also have "\<dots> = getSExtValue a mod 2 ^ W" using trunc by (simp add: mod_pow2_pow2)
    finally show ?thesis .
  next
    case same
    then show ?thesis using getSExtValue_mod [of a] by (simp add: sextOrTrunc_def)
  qed
qed

lemma castTo_format [simp]:
  "getBitWidth (getAPInt (castTo W U x)) = W" "isUnsigned (castTo W U x) = U"
  by (simp_all add: castTo_def)

lemma castTo_bits: "int (getZExtValue (getAPInt (castTo W U x))) = getExtValue x mod 2 ^ W"
  by (simp add: castTo_def getExtValue_def sextOrTrunc_value zextOrTrunc_value of_nat_mod)

lemma castTo_cong: "getExtValue (castTo W U x) mod 2 ^ W = getExtValue x mod 2 ^ W"
  using getExtValue_mod [of "castTo W U x"] by (simp add: castTo_bits)

lemma castTo_range:
  "(if U then 0 \<le> getExtValue (castTo W U x) \<and> getExtValue (castTo W U x) < 2 ^ W
    else - (2 ^ (W - 1)) \<le> getExtValue (castTo W U x) \<and> getExtValue (castTo W U x) < 2 ^ (W - 1))"
proof (cases U)
  case True
  then show ?thesis
    using int_getZExtValue_less [of "getAPInt (castTo W True x)"] by (simp add: getExtValue_def)
next
  case False
  then show ?thesis
    using getSExtValue_bounds [of "getAPInt (castTo W False x)"] by (simp add: getExtValue_def)
qed

lemma window_unique:
  fixes a b m lo :: int
  assumes "a mod m = b mod m" "lo \<le> a" "a < lo + m" "lo \<le> b" "b < lo + m"
  shows "a = b"
proof -
  have "(a - lo) mod m = (b - lo) mod m" using assms(1) by (rule mod_diff_cong) simp
  moreover have "(a - lo) mod m = a - lo" using assms(2,3) by simp
  moreover have "(b - lo) mod m = b - lo" using assms(4,5) by simp
  ultimately show ?thesis by simp
qed

lemma castTo_exact_unsigned:
  assumes "0 \<le> getExtValue x" "getExtValue x < 2 ^ W"
  shows "getExtValue (castTo W True x) = getExtValue x"
proof (rule window_unique [of _ "2 ^ W" _ 0])
  show "getExtValue (castTo W True x) mod 2 ^ W = getExtValue x mod 2 ^ W" by (rule castTo_cong)
  show "0 \<le> getExtValue (castTo W True x)" using castTo_range [of True W x] by simp
  show "getExtValue (castTo W True x) < 0 + 2 ^ W" using castTo_range [of True W x] by simp
  show "0 \<le> getExtValue x" by fact
  show "getExtValue x < 0 + 2 ^ W" using assms(2) by simp
qed

lemma castTo_exact_signed:
  assumes "- (2 ^ (W - 1)) \<le> getExtValue x" "getExtValue x < 2 ^ (W - 1)" "0 < W"
  shows "getExtValue (castTo W False x) = getExtValue x"
proof (rule window_unique [of _ "2 ^ W" _ "- (2 ^ (W - 1))"])
  have half: "- (2 ^ (W - 1)) + 2 ^ W = (2::int) ^ (W - 1)"
    using assms(3) by (cases W) simp_all
  show "getExtValue (castTo W False x) mod 2 ^ W = getExtValue x mod 2 ^ W" by (rule castTo_cong)
  show "- (2 ^ (W - 1)) \<le> getExtValue (castTo W False x)" using castTo_range [of False W x] by simp
  show "getExtValue (castTo W False x) < - (2 ^ (W - 1)) + 2 ^ W"
    unfolding half using castTo_range [of False W x] by simp
  show "- (2 ^ (W - 1)) \<le> getExtValue x" by fact
  show "getExtValue x < - (2 ^ (W - 1)) + 2 ^ W" unfolding half by fact
qed

subsection \<open>Casts in integer constant expressions\<close>

lemma evalCast_integer:
  "evalCast isEvaluated (CastExpr (QualType (IntegerTy W S) c) Op Loc) x = Inr (castTo W (\<not> S) x)"
  by (simp add: evalCast_def)

text \<open>
  C2.  For every cast node whose destination is an integer type of \<open>W\<close> bits, signed when
  \<open>S\<close> holds, and whose operand evaluates to \<open>x\<close>: the cast evaluates to a value \<open>r\<close> of \<open>W\<close>
  bits with the signedness of the destination; \<open>r\<close> and \<open>x\<close> stand for integers that are
  congruent modulo \<open>2 ^ W\<close> (truncation in two's complement); \<open>r\<close> lies in the range of the
  destination; so \<open>r\<close> stands for the same integer as \<open>x\<close> whenever that integer is in the
  range of the destination (as in sign-extension of a signed operand and zero-extension
  of an unsigned one).  In particular the 64-bit \<open>0x100000001\<close> cast to a signed 32-bit
  type evaluates to \<open>1\<close>, and the signed 32-bit \<open>-1\<close> cast to an unsigned 32-bit type
  evaluates to \<open>0xFFFFFFFF\<close>.
\<close>

theorem isIntegerConstantExpr_CastExpr:
  "(isIntegerConstantExpr Ctx isEvaluated Op = Inr x \<longrightarrow>
      (\<exists>r. isIntegerConstantExpr Ctx isEvaluated (CastExpr (QualType (IntegerTy W S) c) Op Loc) = Inr r \<and>
           getBitWidth (getAPInt r) = W \<and> isUnsigned r = (\<not> S) \<and>
           getExtValue r mod 2 ^ W = getExtValue x mod 2 ^ W \<and>
           (if S then - (2 ^ (W - 1)) \<le> getExtValue r \<and> getExtValue r < 2 ^ (W - 1)
            else 0 \<le> getExtValue r \<and> getExtValue r < 2 ^ W) \<and>
           (0 < W \<and>
            (if S then - (2 ^ (W - 1)) \<le> getExtValue x \<and> getExtValue x < 2 ^ (W - 1)
             else 0 \<le> getExtValue x \<and> getExtValue x < 2 ^ W)
            \<longrightarrow> getExtValue r = getExtValue x)))
   \<and> isIntegerConstantExpr Ctx isEvaluated
        (CastExpr (QualType (IntegerTy 32 True) False)
           (IntegerLiteral (QualType (IntegerTy 64 True) False) (APInt_make 64 0x100000001) l1) l2)
       = Inr (APSInt (APInt_make 32 1) False)
   \<and> getExtValue (APSInt (APInt_make 32 1) False) = 1
   \<and> isIntegerConstantExpr Ctx isEvaluated
        (CastExpr (QualType (IntegerTy 32 False) False)
           (UnaryOperator (QualType (IntegerTy 32 True) False)
              (IntegerLiteral (QualType (IntegerTy 32 True) False) (APInt_make 32 1) l1) Minus l2) l3)
       = Inr (APSInt (APInt_make 32 0xFFFFFFFF) True)
   \<and> getExtValue (APSInt (APInt_make 32 0xFFFFFFFF) True) = 0xFFFFFFFF"
proof -
  have gen: "isIntegerConstantExpr Ctx isEvaluated Op = Inr x \<longrightarrow>
      (\<exists>r. isIntegerConstantExpr Ctx isEvaluated (CastExpr (QualType (IntegerTy W S) c) Op Loc) = Inr r \<and>
           getBitWidth (getAPInt r) = W \<and> isUnsigned r = (\<not> S) \<and>
           getExtValue r mod 2 ^ W = getExtValue x mod 2 ^ W \<and>
           (if S then - (2 ^ (W - 1)) \<le> getExtValue r \<and> getExtValue r < 2 ^ (W - 1)
            else 0 \<le> getExtValue r \<and> getExtValue r < 2 ^ W) \<and>
           (0 < W \<and>
            (if S then - (2 ^ (W - 1)) \<le> getExtValue x \<and> getExtValue x < 2 ^ (W - 1)
             else 0 \<le> getExtValue x \<and> getExtValue x < 2 ^ W)
            \<longrightarrow> getExtValue r = getExtValue x))"
  proof
    assume ev: "isIntegerConstantExpr Ctx isEvaluated Op = Inr x"
    let ?r = "castTo W (\<not> S) x"
    have 1: "isIntegerConstantExpr Ctx isEvaluated (CastExpr (QualType (IntegerTy W S) c) Op Loc) = Inr ?r"
      using ev by (simp add: evalCast_integer)
    have 2: "getExtValue ?r mod 2 ^ W = getExtValue x mod 2 ^ W" by (rule castTo_cong)
    have 3: "if S then - (2 ^ (W - 1)) \<le> getExtValue ?r \<and> getExtValue ?r < 2 ^ (W - 1)
            else 0 \<le> getExtValue ?r \<and> getExtValue ?r < 2 ^ W"
      using castTo_range [of "\<not> S" W x] by (cases S) simp_all
    have 4: "0 < W \<and>
            (if S then - (2 ^ (W - 1)) \<le> getExtValue x \<and> getExtValue x < 2 ^ (W - 1)
             else 0 \<le> getExtValue x \<and> getExtValue x < 2 ^ W)
            \<longrightarrow> getExtValue ?r = getExtValue x"
      using castTo_exact_signed [of W x] castTo_exact_unsigned [of x W] by (cases S) simp_all
    from 1 2 3 4 show "\<exists>r. isIntegerConstantExpr Ctx isEvaluated (CastExpr (QualType (IntegerTy W S) c) Op Loc) = Inr r \<and>
           getBitWidth (getAPInt r) = W \<and> isUnsigned r = (\<not> S) \<and>
           getExtValue r mod 2 ^ W = getExtValue x mod 2 ^ W \<and>
           (if S then - (2 ^ (W - 1)) \<le> getExtValue r \<and> getExtValue r < 2 ^ (W - 1)
            else 0 \<le> getExtValue r \<and> getExtValue r < 2 ^ W) \<and>
           (0 < W \<and>
            (if S then - (2 ^ (W - 1)) \<le> getExtValue x \<and> getExtValue x < 2 ^ (W - 1)
             else 0 \<le> getExtValue x \<and> getExtValue x < 2 ^ W)
            \<longrightarrow> getExtValue r = getExtValue x)"
      by (intro exI [of _ ?r]) simp
  qed
  have c1: "isIntegerConstantExpr Ctx isEvaluated
        (CastExpr (QualType (IntegerTy 32 True) False)
           (IntegerLiteral (QualType (IntegerTy 64 True) False) (APInt_make 64 0x100000001) l1) l2)
       = Inr (APSInt (APInt_make 32 1) False)"
    by (simp add: evalCast_def castTo_def sextOrTrunc_def APInt_trunc_def APInt_eq_iff)
  have v1: "getExtValue (APSInt (APInt_make 32 1) False) = 1"
    by (simp add: getExtValue_def getSExtValue_def isNegative_iff)
  have c2: "isIntegerConstantExpr Ctx isEvaluated
        (CastExpr (QualType (IntegerTy 32 False) False)
           (UnaryOperator (QualType (IntegerTy 32 True) False)
              (IntegerLiteral (QualType (IntegerTy 32 True) False) (APInt_make 32 1) l1) Minus l2) l3)
       = Inr (APSInt (APInt_make 32 0xFFFFFFFF) True)"
    by (simp add: evalCast_def castTo_def sextOrTrunc_def zextOrTrunc_def isArithmeticOp_def
          mkResult_def APSInt_make_def getExtValue_def getSExtValue_def isNegative_iff APInt_eq_iff)
  have v2: "getExtValue (APSInt (APInt_make 32 0xFFFFFFFF) True) = 0xFFFFFFFF"
    by (simp add: getExtValue_def)
  from gen c1 v1 c2 v2 show ?thesis by blast
qed

text \<open>
  The general statement at the cast of the 64-bit literal \<open>0x100000001\<close> to a signed
  32-bit type, in the default mode: the result is congruent to \<open>0x100000001\<close> modulo
  \<open>2 ^ 32\<close> and lies in the signed 32-bit range, so it is \<open>1\<close>.
\<close>

theorem isIntegerConstantExpr_CastExpr_witness:
  "isIntegerConstantExpr
      \<lparr>getTypeSize = (\<lambda>T. 0), getTypeAlign = (\<lambda>T. 0), typesAreCompatible = (\<lambda>T1 T2. T1 = T2)\<rparr> True
      (IntegerLiteral (QualType (IntegerTy 64 True) False) (APInt_make 64 0x100000001) 5)
    = Inr (APSInt (APInt_make 64 0x100000001) False)
   \<and> (\<exists>r. isIntegerConstantExpr
        \<lparr>getTypeSize = (\<lambda>T. 0), getTypeAlign = (\<lambda>T. 0), typesAreCompatible = (\<lambda>T1 T2. T1 = T2)\<rparr> True
        (CastExpr (QualType (IntegerTy 32 True) False)
           (IntegerLiteral (QualType (IntegerTy 64 True) False) (APInt_make 64 0x100000001) 5) 1)
        = Inr r \<and> getExtValue r = 1)"
proof -
  let ?Ctx = "\<lparr>getTypeSize = (\<lambda>T. 0), getTypeAlign = (\<lambda>T. 0), typesAreCompatible = (\<lambda>T1 T2. T1 = T2)\<rparr>"
  let ?lit = "IntegerLiteral (QualType (IntegerTy 64 True) False) (APInt_make 64 0x100000001) 5"
  let ?x = "APSInt (APInt_make 64 0x100000001) False"
  have ev: "isIntegerConstantExpr ?Ctx True ?lit = Inr ?x" by simp
  have x: "getExtValue ?x = 4294967297"
    by (simp add: getExtValue_def getSExtValue_def isNegative_iff)
  note g = isIntegerConstantExpr_CastExpr [of ?Ctx True ?lit ?x 32 True False 1, THEN conjunct1, THEN mp, OF ev]
  from g obtain r where rr:
    "isIntegerConstantExpr ?Ctx True (CastExpr (QualType (IntegerTy 32 True) False) ?lit 1) = Inr r \<and>
     getBitWidth (getAPInt r) = 32 \<and> isUnsigned r = (\<not> True) \<and>
     getExtValue r mod 2 ^ 32 = getExtValue ?x mod 2 ^ 32 \<and>
     (if True then - (2 ^ (32 - 1)) \<le> getExtValue r \<and> getExtValue r < 2 ^ (32 - 1)
      else 0 \<le> getExtValue r \<and> getExtValue r < 2 ^ 32) \<and>
     (0 < (32::nat) \<and>
      (if True then - (2 ^ (32 - 1)) \<le> getExtValue ?x \<and> getExtValue ?x < 2 ^ (32 - 1)
       else 0 \<le> getExtValue ?x \<and> getExtValue ?x < 2 ^ 32)
      \<longrightarrow> getExtValue r = getExtValue ?x)" ..
  note r = rr [THEN conjunct1]
  note cong = rr [THEN conjunct2, THEN conjunct2, THEN conjunct2, THEN conjunct1]
  note range = rr [THEN conjunct2, THEN conjunct2, THEN conjunct2, THEN conjunct2, THEN conjunct1]
  from cong x have c: "getExtValue r mod 4294967296 = 1 mod 4294967296" by simp
  from range have lo: "- 2147483648 \<le> getExtValue r" and hi: "getExtValue r < - 2147483648 + 4294967296"
    by simp_all
  have "getExtValue r = 1"
    by (rule window_unique [OF c lo hi]) simp_all
  with r have "\<exists>r. isIntegerConstantExpr ?Ctx True (CastExpr (QualType (IntegerTy 32 True) False) ?lit 1) = Inr r
      \<and> getExtValue r = 1" by (intro exI [of _ r] conjI)
  with ev show ?thesis by (intro conjI)
qed

end
